theory Spec2Isabelle
  imports Complex_Main
begin

section \<open>The browser and the backend, as the clients see them\<close>

text \<open>
  The three clients of the repository (the camera scanner of \<^verbatim>\<open>ar-camera.js\<close>, the manual
  form handler, and the React page with its audio helper) are event handlers over mutable
  component state and the DOM. Each handler becomes a function from the state before the event
  to the state after it. What the handler cannot decide itself (whether \<^verbatim>\<open>fetch\<close>
  rejects, what the backend answers, whether the canvas can be read) is an explicit argument.
  Every \<^verbatim>\<open>fetch\<close> call appends the request to a log kept in the state, so that the
  number and the contents of the requests an action issues can be stated.
\<close>

text \<open>JavaScript truthiness of an optional string: \<^verbatim>\<open>undefined\<close> and \<^verbatim>\<open>''\<close> are falsy.\<close>

definition truthy :: "string option \<Rightarrow> bool" where
  "truthy v = (case v of None \<Rightarrow> False | Some s \<Rightarrow> s \<noteq> [])"

text \<open>\<^verbatim>\<open>a || b\<close> for an optional string \<open>a\<close> and a string \<open>b\<close>.\<close>

definition or_else :: "string option \<Rightarrow> string \<Rightarrow> string" where
  "or_else v d = (case v of None \<Rightarrow> d | Some s \<Rightarrow> if s = [] then d else s)"

text \<open>\<^verbatim>\<open>a || b\<close> for two optional strings.\<close>

definition or_opt :: "string option \<Rightarrow> string option \<Rightarrow> string option" where
  "or_opt a b = (if truthy a then a else b)"

text \<open>
  The region object of \<^verbatim>\<open>handleRegionSelection\<close> once the second point is
  recorded. Coordinates are JavaScript numbers (offsets in CSS pixels, possibly fractional);
  they are modelled as reals, so rounding of the subtraction is not part of the model.
\<close>

record region =
  r_startX :: real
  r_startY :: real
  r_width :: real
  r_height :: real
  r_x :: real
  r_y :: real

text \<open>A value of a request body: a form-data entry or a member of a JSON object.\<close>

datatype field =
    Text string
  | Flag bool
  | FileData string
  | RegionJSON region

record http_request =
  req_method :: string
  req_url :: string
  req_json :: bool
  req_body :: "(string \<times> field) list"

text \<open>
  What \<^verbatim>\<open>await fetch(...)\<close> and \<^verbatim>\<open>await response.json()\<close> give: \<open>Rejects m\<close>
  is a network error with message \<open>m\<close>; \<open>Resolves ok status text parsed\<close> is a response
  with \<^verbatim>\<open>response.ok\<close>, \<^verbatim>\<open>response.status\<close> (in decimal), the body as text, and what
  \<^verbatim>\<open>response.json()\<close> gives: the parsed value (\<open>Inr r\<close>), or, for a body that is not
  JSON, the rejection with the message the engine words for it (\<open>Inl e\<close>).
\<close>

datatype 'r fetch_outcome =
    Rejects string
  | Resolves bool string string "string + 'r"

text \<open>
  What is thrown. \<open>Error m\<close> is an error whose message is \<open>m\<close>: the code made it with
  \<^verbatim>\<open>new Error\<close>, or the environment raised it and gives the message. \<open>TypeError what\<close> is
  the error the engine raises when the named property is read of \<^verbatim>\<open>undefined\<close> or
  \<^verbatim>\<open>null\<close>, or when the named constructor refuses its argument; \<open>DOMException name\<close> is
  the platform's exception of that name. The engine words the messages of these two, so the
  model keeps the error and not a wording.
\<close>

datatype thrown =
    Error string
  | TypeError string
  | DOMException string

text \<open>
  What \<^verbatim>\<open>alert\<close> shows: a text of the code's, or a text followed by the message of an
  error.
\<close>

datatype alert_text =
    Alert string
  | AlertError string thrown

text \<open>
  \<^verbatim>\<open>String.prototype.trim\<close> on strings of 8-bit characters: the white space and line
  terminators of ECMAScript below 256 are TAB, LF, VT, FF, CR, SP and NBSP.
\<close>

definition js_whitespace :: "char \<Rightarrow> bool" where
  "js_whitespace c = (of_char c \<in> {9, 10, 11, 12, 13, 32, 160 :: nat})"

definition trim :: "string \<Rightarrow> string" where
  "trim s = rev (dropWhile js_whitespace (rev (dropWhile js_whitespace s)))"

record video_urls =
  original :: "string option"
  narrated :: "string option"
  cloud_original :: "string option"
  script :: "string option"
  code :: "string option"

record documents =
  solution_url :: "string option"
  explanation_url :: "string option"
  summary_url :: "string option"

text \<open>The answer of \<^verbatim>\<open>/api/generate-content\<close>, as far as the clients read it.\<close>

record generation_reply =
  g_success :: bool
  g_error :: "string option"
  g_video_urls :: "video_urls option"
  g_documents :: "documents option"

section \<open>The camera scanner (\<^verbatim>\<open>ARCameraScanner\<close>)\<close>

subsection \<open>Data\<close>

text \<open>
  A candidate of the analysis (the primary concept, a question or a topic): \<open>c_key\<close> is the
  question's \<^verbatim>\<open>text\<close> or the topic's \<^verbatim>\<open>name\<close>, which the template compares with the
  recommended option.
\<close>

record candidate =
  c_key :: string
  display_text :: string
  suggested_input :: string

record confirmation_data =
  primary_concept :: candidate
  questions :: "candidate list"
  topics :: "candidate list"
  best_option_type :: string
  best_option_key :: string
  default_selection :: string

text \<open>The answer of the two analysis endpoints.\<close>

record analysis_reply =
  a_success :: bool
  a_message :: "string option"
  a_analysis :: "string option"
  a_confirmation_data :: "confirmation_data option"

datatype card_kind = Concept | Question | Topic

text \<open>
  A card element of the overlay: its kind stands for the class \<^verbatim>\<open>concept-card\<close>,
  \<^verbatim>\<open>question-card\<close> or \<^verbatim>\<open>topic-card\<close>, \<open>data_index\<close> for \<^verbatim>\<open>data-index\<close>, and
  \<open>card_classes\<close> holds the other class tokens (\<^verbatim>\<open>recommended\<close>, \<^verbatim>\<open>selected\<close>).
\<close>

record card =
  card_kind :: card_kind
  data_index :: nat
  card_classes :: "string list"

record overlay =
  cards :: "card list"
  confirmed_input :: string
  confirmed_complexity :: string
  confirmed_language :: string

text \<open>
  The children of \<^verbatim>\<open>document.body\<close>: an \<open>OverlayNode\<close> is an element whose id is
  \<^verbatim>\<open>confirmation-overlay\<close>; every other element is an \<open>OtherNode\<close>.
\<close>

datatype node = OverlayNode overlay | OtherNode string

record scanner =
  stream :: "nat option"
  isSelecting :: bool
  selectedRegion :: "(real \<times> real) option"
  analysisResult :: "string option"
  confirmationData :: "confirmation_data option"
  startCameraBtn_display :: string
  startCameraBtn_disabled :: bool
  captureBtn_display :: string
  selectRegionBtn_display :: string
  stopCameraBtn_display :: string
  cameraFeed_display :: string
  selectionBox_display :: string
  arLoading_display :: string
  arVideo_src :: "string option"
  arVideo_display :: string
  arResults_display :: string
  body :: "node list"
  alerts :: "alert_text list"
  uncaught :: "thrown list"
  requests :: "http_request list"
  live_streams :: "nat list"
  pending_getUserMedia :: nat
  next_stream :: nat
  html_textarea :: "string \<Rightarrow> string"

text \<open>
  The last four fields are the browser's side. For \<^verbatim>\<open>getUserMedia\<close>: the streams that
  were granted and still have a live track, the calls that have not settled yet, and the
  identity of the next stream. A stream is a number; \<open>stream\<close> holds the scanner's handle.
  And \<open>html_textarea\<close> is the HTML parser on the markup put between the tags of a text
  area: the value the text area then has (character references decoded, a leading line feed
  dropped, the text cut at a closing tag).
\<close>

subsection \<open>Camera lifecycle\<close>

definition clearDetectedItems :: "scanner \<Rightarrow> scanner" where
  "clearDetectedItems s = s\<lparr>analysisResult := None, confirmationData := None\<rparr>"

text \<open>
  \<^verbatim>\<open>startCamera\<close> up to its \<^verbatim>\<open>await\<close>: the call of \<^verbatim>\<open>getUserMedia\<close> is issued and
  the handler suspends. Nothing of the scanner's own state is read or written before.
\<close>

definition startCamera_call :: "scanner \<Rightarrow> scanner" where
  "startCamera_call s = s\<lparr>pending_getUserMedia := pending_getUserMedia s + 1\<rparr>"

text \<open>The browser grants a pending call: a fresh stream with live tracks exists.\<close>

definition startCamera_granted :: "scanner \<Rightarrow> scanner" where
  "startCamera_granted s =
     (let n = next_stream s in
      s\<lparr>pending_getUserMedia := pending_getUserMedia s - 1,
        next_stream := n + 1,
        live_streams := n # live_streams s,
        stream := Some n,
        cameraFeed_display := ''block'',
        startCameraBtn_display := ''none'',
        captureBtn_display := ''inline-block'',
        selectRegionBtn_display := ''inline-block'',
        stopCameraBtn_display := ''inline-block''\<rparr>)"

text \<open>The browser rejects a pending call: the \<^verbatim>\<open>catch\<close> branch alerts.\<close>

definition startCamera_denied :: "scanner \<Rightarrow> scanner" where
  "startCamera_denied s =
     s\<lparr>pending_getUserMedia := pending_getUserMedia s - 1,
       alerts := alerts s @
         [Alert ''Camera access denied or not available. Please use image upload instead.'']\<rparr>"

definition stopCamera :: "scanner \<Rightarrow> scanner" where
  "stopCamera s =
     clearDetectedItems
       ((case stream s of
           None \<Rightarrow> s
         | Some n \<Rightarrow> s\<lparr>live_streams := removeAll n (live_streams s), stream := None\<rparr>)
        \<lparr>cameraFeed_display := ''none'',
         startCameraBtn_display := ''inline-block'',
         captureBtn_display := ''none'',
         selectRegionBtn_display := ''none'',
         stopCameraBtn_display := ''none''\<rparr>)"

text \<open>
  \<^verbatim>\<open>showCameraWarning\<close>, called when the backend reports no camera support, disables the
  start button for good.
\<close>

definition showCameraWarning :: "scanner \<Rightarrow> scanner" where
  "showCameraWarning s = s\<lparr>startCameraBtn_disabled := True\<rparr>"

text \<open>
  The events of the camera lifecycle. A click reaches its handler only when the button is
  displayed and enabled; a grant or a denial settles a pending call.
\<close>

datatype camera_event = ClickStart | Granted | Denied | ClickStop

definition clickable :: "string \<Rightarrow> bool \<Rightarrow> bool" where
  "clickable display disabled = (display \<noteq> ''none'' \<and> \<not> disabled)"

fun camera_step :: "camera_event \<Rightarrow> scanner \<Rightarrow> scanner" where
  "camera_step ClickStart s =
     (if clickable (startCameraBtn_display s) (startCameraBtn_disabled s)
      then startCamera_call s else s)"
| "camera_step Granted s =
     (if 0 < pending_getUserMedia s then startCamera_granted s else s)"
| "camera_step Denied s =
     (if 0 < pending_getUserMedia s then startCamera_denied s else s)"
| "camera_step ClickStop s =
     (if clickable (stopCameraBtn_display s) False then stopCamera s else s)"

fun camera_run :: "camera_event list \<Rightarrow> scanner \<Rightarrow> scanner" where
  "camera_run [] s = s"
| "camera_run (e # es) s = camera_run es (camera_step e s)"

text \<open>
  A run in which the start button is never clicked while an earlier call of
  \<^verbatim>\<open>getUserMedia\<close> is still pending.
\<close>

fun unhurried :: "camera_event list \<Rightarrow> scanner \<Rightarrow> bool" where
  "unhurried [] s = True"
| "unhurried (e # es) s =
     ((e \<noteq> ClickStart \<or> pending_getUserMedia s = 0) \<and> unhurried es (camera_step e s))"

text \<open>
  The HTML parser on the content of a text area that holds none of the characters
  \<^verbatim>\<open>&\<close>, \<^verbatim>\<open><\<close>, CR and NUL and does not begin with a line feed: the text itself. It is
  the parser of the concrete states below, which only ever give it such text.
\<close>

definition plain_textarea :: "string \<Rightarrow> string" where
  "plain_textarea t = t"

text \<open>
  The state the constructor leaves, with the controls as \<^verbatim>\<open>stopCamera\<close> resets them
  (the page's markup is not part of the repository).
\<close>

definition new_scanner :: scanner where
  "new_scanner =
     \<lparr>stream = None, isSelecting = False, selectedRegion = None, analysisResult = None,
      confirmationData = None,
      startCameraBtn_display = ''inline-block'', startCameraBtn_disabled = False,
      captureBtn_display = ''none'', selectRegionBtn_display = ''none'',
      stopCameraBtn_display = ''none'', cameraFeed_display = ''none'',
      selectionBox_display = ''none'', arLoading_display = ''none'',
      arVideo_src = None, arVideo_display = ''none'', arResults_display = ''none'',
      body = [], alerts = [], uncaught = [], requests = [],
      live_streams = [], pending_getUserMedia = 0, next_stream = 0,
      html_textarea = plain_textarea\<rparr>"

subsection \<open>Capture, upload and analysis\<close>

text \<open>
  The loading indicator: only its \<^verbatim>\<open>display\<close> is kept. \<^verbatim>\<open>updateLoadingProgress\<close>
  writes the indicator's text and width only and is left out.
\<close>

definition showARLoading :: "scanner \<Rightarrow> scanner" where
  "showARLoading s = s\<lparr>arLoading_display := ''flex''\<rparr>"

definition hideARLoading :: "scanner \<Rightarrow> scanner" where
  "hideARLoading s = s\<lparr>arLoading_display := ''none''\<rparr>"

definition alert :: "alert_text \<Rightarrow> scanner \<Rightarrow> scanner" where
  "alert m s = s\<lparr>alerts := alerts s @ [m]\<rparr>"

definition fetch :: "http_request \<Rightarrow> scanner \<Rightarrow> scanner" where
  "fetch r s = s\<lparr>requests := requests s @ [r]\<rparr>"

definition post_form :: "string \<Rightarrow> (string \<times> field) list \<Rightarrow> http_request" where
  "post_form u b = \<lparr>req_method = ''POST'', req_url = u, req_json = False, req_body = b\<rparr>"

text \<open>
  \<^verbatim>\<open>document.getElementById('confirmation-overlay')\<close> finds the first such element of
  the document; \<^verbatim>\<open>remove()\<close> takes that element out.
\<close>

fun find_overlay :: "node list \<Rightarrow> overlay option" where
  "find_overlay [] = None"
| "find_overlay (OverlayNode v # ns) = Some v"
| "find_overlay (OtherNode i # ns) = find_overlay ns"

fun remove_overlay :: "node list \<Rightarrow> node list" where
  "remove_overlay [] = []"
| "remove_overlay (OverlayNode v # ns) = ns"
| "remove_overlay (OtherNode i # ns) = OtherNode i # remove_overlay ns"

fun update_overlay :: "(overlay \<Rightarrow> overlay) \<Rightarrow> node list \<Rightarrow> node list" where
  "update_overlay f [] = []"
| "update_overlay f (OverlayNode v # ns) = OverlayNode (f v) # ns"
| "update_overlay f (OtherNode i # ns) = OtherNode i # update_overlay f ns"

definition recommended :: "bool \<Rightarrow> string list" where
  "recommended b = (if b then [''recommended''] else [])"

definition concept_card :: "confirmation_data \<Rightarrow> card" where
  "concept_card d =
     \<lparr>card_kind = Concept, data_index = 0,
      card_classes = recommended (best_option_type d = ''concept'')\<rparr>"

definition question_card :: "confirmation_data \<Rightarrow> nat \<times> candidate \<Rightarrow> card" where
  "question_card d iq =
     \<lparr>card_kind = Question, data_index = fst iq,
      card_classes =
        recommended (best_option_type d = ''question'' \<and> best_option_key d = c_key (snd iq))\<rparr>"

definition topic_card :: "confirmation_data \<Rightarrow> nat \<times> candidate \<Rightarrow> card" where
  "topic_card d it =
     \<lparr>card_kind = Topic, data_index = fst it,
      card_classes =
        recommended (best_option_type d = ''topic'' \<and> best_option_key d = c_key (snd it))\<rparr>"

text \<open>
  The cards of the template of \<^verbatim>\<open>createConfirmationOverlay\<close>: the concept, one card for
  each question, one for each topic. The texts the template puts into the cards are taken to
  hold no markup of cards of their own.
\<close>

definition overlay_cards :: "confirmation_data \<Rightarrow> card list" where
  "overlay_cards d =
     concept_card d
     # map (question_card d) (List.enumerate 0 (questions d))
     @ map (topic_card d) (List.enumerate 0 (topics d))"

text \<open>
  The element the template builds. The template writes \<^verbatim>\<open>default_selection\<close> between the
  tags of the text area and assigns the whole to \<^verbatim>\<open>innerHTML\<close>, so the text area holds
  what the HTML parser (\<open>parse\<close>) makes of it.
\<close>

definition new_overlay :: "(string \<Rightarrow> string) \<Rightarrow> confirmation_data \<Rightarrow> overlay" where
  "new_overlay parse d =
     \<lparr>cards = overlay_cards d,
      confirmed_input = parse (default_selection d),
      confirmed_complexity = ''intermediate'',
      confirmed_language = ''english''\<rparr>"

text \<open>
  \<^verbatim>\<open>createConfirmationOverlay\<close>: the existing overlay is removed first; reading
  \<^verbatim>\<open>confirmationData.detected_content\<close> of a missing value throws, after the removal and
  before anything is appended. The second component is the error thrown.
\<close>

definition createConfirmationOverlay ::
  "confirmation_data option \<Rightarrow> scanner \<Rightarrow> scanner \<times> thrown option" where
  "createConfirmationOverlay cd s =
     (let s1 = s\<lparr>body := remove_overlay (body s)\<rparr> in
      case cd of
        None \<Rightarrow> (s1, Some (TypeError ''detected_content''))
      | Some d \<Rightarrow>
          (s1\<lparr>body := body s1 @ [OverlayNode (new_overlay (html_textarea s) d)]\<rparr>, None))"

definition showIntelligentConfirmation ::
  "confirmation_data option \<Rightarrow> scanner \<Rightarrow> scanner \<times> thrown option" where
  "showIntelligentConfirmation cd s = createConfirmationOverlay cd (hideARLoading s)"

definition closeConfirmation :: "scanner \<Rightarrow> scanner" where
  "closeConfirmation s = s\<lparr>body := remove_overlay (body s)\<rparr>"

definition retakePhoto :: "scanner \<Rightarrow> scanner" where
  "retakePhoto s = clearDetectedItems (closeConfirmation s)"

text \<open>
  The part the three processing functions share once the reply is parsed: on success the
  analysis is stored and the confirmation shown (the timer then hides the indicator once
  more); otherwise an error with the reply's message, or the given default, is thrown.
  \<open>Inl\<close> holds the error thrown into the caller's \<^verbatim>\<open>catch\<close>.
\<close>

definition analysis_done :: "string \<Rightarrow> analysis_reply \<Rightarrow> scanner \<Rightarrow> thrown \<times> scanner + scanner" where
  "analysis_done dflt r s =
     (if a_success r then
        (case showIntelligentConfirmation (a_confirmation_data r)
                (s\<lparr>analysisResult := a_analysis r,
                   confirmationData := a_confirmation_data r\<rparr>) of
           (s1, Some m) \<Rightarrow> Inl (m, s1)
         | (s1, None) \<Rightarrow> Inr (hideARLoading s1))
      else Inl (Error (or_else (a_message r) dflt), s))"

definition processCameraCapture ::
  "(string \<times> field) list \<Rightarrow> analysis_reply fetch_outcome \<Rightarrow> scanner \<Rightarrow> scanner" where
  "processCameraCapture formData outcome s =
     (let s1 = fetch (post_form ''/api/process-camera-capture'' formData) s;
          failed = (\<lambda>e t. alert (AlertError ''Camera capture failed: '' e) (hideARLoading t)) in
      case outcome of
        Rejects m \<Rightarrow> failed (Error m) s1
      | Resolves ok status text parsed \<Rightarrow>
          if \<not> ok then failed (Error (''Server error: '' @ status @ '' - '' @ text)) s1
          else (case parsed of
                  Inl e \<Rightarrow> failed (Error e) s1
                | Inr r \<Rightarrow>
                    (case analysis_done ''Camera capture analysis failed'' r s1 of
                       Inl (e, s2) \<Rightarrow> failed e s2
                     | Inr s2 \<Rightarrow> s2)))"

definition processImage ::
  "(string \<times> field) list \<Rightarrow> bool \<Rightarrow> analysis_reply fetch_outcome \<Rightarrow> scanner \<Rightarrow> scanner" where
  "processImage formData isCamera outcome s =
     (let endpoint = (if isCamera then ''/api/process-camera-capture''
                      else ''/api/analyze-educational-image'');
          s1 = fetch (post_form endpoint formData) s;
          failed = (\<lambda>e t. alert (AlertError ''Image analysis failed: '' e) (hideARLoading t)) in
      case outcome of
        Rejects m \<Rightarrow> failed (Error m) s1
      | Resolves ok status text parsed \<Rightarrow>
          (case parsed of
             Inl e \<Rightarrow> failed (Error e) s1
           | Inr r \<Rightarrow>
               (case analysis_done ''Vision AI analysis failed'' r s1 of
                  Inl (e, s2) \<Rightarrow> failed e s2
                | Inr s2 \<Rightarrow> s2)))"

text \<open>
  \<^verbatim>\<open>captureImage\<close>: \<open>frame\<close> is what drawing the video frame and
  \<^verbatim>\<open>canvas.toDataURL\<close> give, the data URL or (\<open>Inl\<close>) the message of the error they throw.
\<close>

definition captureImage ::
  "region option \<Rightarrow> string + string \<Rightarrow> analysis_reply fetch_outcome \<Rightarrow> scanner \<Rightarrow> scanner" where
  "captureImage rg frame outcome s =
     (let s1 = showARLoading s in
      case frame of
        Inl m \<Rightarrow> alert (AlertError ''Image capture failed: '' (Error m)) (hideARLoading s1)
      | Inr imageDataUrl \<Rightarrow>
          processCameraCapture
            ((''image_data'', Text imageDataUrl)
             # (case rg of None \<Rightarrow> [] | Some r \<Rightarrow> [(''selected_region'', RegionJSON r)]))
            outcome s1)"

text \<open>
  The class declares \<^verbatim>\<open>handleImageUpload\<close> twice; the later declaration is the method,
  and it goes through \<^verbatim>\<open>processImage\<close>. \<open>file\<close> is \<^verbatim>\<open>event.target.files[0]\<close>.
\<close>

definition handleImageUpload ::
  "string option \<Rightarrow> analysis_reply fetch_outcome \<Rightarrow> scanner \<Rightarrow> scanner" where
  "handleImageUpload file outcome s =
     (case file of
        None \<Rightarrow> s
      | Some f \<Rightarrow> processImage [(''image'', FileData f)] False outcome (showARLoading s))"

subsection \<open>Region selection\<close>

definition hideSelectionBox :: "scanner \<Rightarrow> scanner" where
  "hideSelectionBox s = s\<lparr>selectionBox_display := ''none''\<rparr>"

definition showSelectionBox :: "scanner \<Rightarrow> scanner" where
  "showSelectionBox s = s\<lparr>selectionBox_display := ''block''\<rparr>"

definition toggleRegionSelection :: "scanner \<Rightarrow> scanner" where
  "toggleRegionSelection s =
     (let s1 = s\<lparr>isSelecting := \<not> isSelecting s\<rparr> in
      if isSelecting s1 then s1 else hideSelectionBox s1)"

text \<open>The object the second click completes, from the start corner and the point clicked.\<close>

definition end_selection :: "real \<times> real \<Rightarrow> real \<times> real \<Rightarrow> region" where
  "end_selection start p =
     (let width = fst p - fst start;
          height = snd p - snd start in
      \<lparr>r_startX = fst start, r_startY = snd start,
       r_width = \<bar>width\<bar>, r_height = \<bar>height\<bar>,
       r_x = (if width > 0 then fst start else fst p),
       r_y = (if height > 0 then snd start else snd p)\<rparr>)"

text \<open>
  \<^verbatim>\<open>handleRegionSelection\<close>: \<open>rect\<close> is the left and top of the feed's bounding rectangle,
  \<open>event\<close> the \<^verbatim>\<open>clientX\<close> and \<^verbatim>\<open>clientY\<close> of the click. The capture is started with the
  region before the selection mode is left and the region forgotten; its continuation after
  the reply touches none of the fields those two steps write.
\<close>

definition handleRegionSelection ::
  "real \<times> real \<Rightarrow> real \<times> real \<Rightarrow> string + string \<Rightarrow> analysis_reply fetch_outcome
     \<Rightarrow> scanner \<Rightarrow> scanner" where
  "handleRegionSelection rect event frame outcome s =
     (let p = (fst event - fst rect, snd event - snd rect) in
      case selectedRegion s of
        None \<Rightarrow> showSelectionBox (s\<lparr>selectedRegion := Some p\<rparr>)
      | Some start \<Rightarrow>
          (toggleRegionSelection
             (captureImage (Some (end_selection start p)) frame outcome s))
          \<lparr>selectedRegion := None\<rparr>)"

text \<open>
  A click on the feed; \<^verbatim>\<open>handleCameraTouch\<close> does the same with the first touch point.
\<close>

definition handleCameraClick ::
  "real \<times> real \<Rightarrow> real \<times> real \<Rightarrow> string + string \<Rightarrow> analysis_reply fetch_outcome
     \<Rightarrow> scanner \<Rightarrow> scanner" where
  "handleCameraClick rect event frame outcome s =
     (if isSelecting s then handleRegionSelection rect event frame outcome s
      else captureImage None frame outcome s)"

subsection \<open>The confirmation view\<close>

definition deselect :: "card \<Rightarrow> card" where
  "deselect c = c\<lparr>card_classes := removeAll ''selected'' (card_classes c)\<rparr>"

definition select :: "card \<Rightarrow> card" where
  "select c =
     c\<lparr>card_classes := (if ''selected'' \<in> set (card_classes c) then card_classes c
                         else card_classes c @ [''selected''])\<rparr>"

definition is_selected :: "card \<Rightarrow> bool" where
  "is_selected c = (''selected'' \<in> set (card_classes c))"

text \<open>
  \<^verbatim>\<open>document.querySelectorAll('.question-card, .topic-card, .concept-card')\<close> with
  \<^verbatim>\<open>classList.remove('selected')\<close> on each: every card of the document.
\<close>

fun deselect_all :: "node \<Rightarrow> node" where
  "deselect_all (OverlayNode v) = OverlayNode (v\<lparr>cards := map deselect (cards v)\<rparr>)"
| "deselect_all (OtherNode i) = OtherNode i"

definition nth_opt :: "'a list \<Rightarrow> nat \<Rightarrow> 'a option" where
  "nth_opt xs i = (if i < length xs then Some (xs ! i) else None)"

text \<open>
  \<^verbatim>\<open>selectOption(cardElement, type, inputElement)\<close>. The card element is the \<open>k\<close>-th card
  of the overlay the listeners were bound in, \<open>index\<close> its \<^verbatim>\<open>data-index\<close>; the input element
  is that overlay's text area. Reading \<^verbatim>\<open>detected_content\<close> of a missing
  \<^verbatim>\<open>this.confirmationData\<close>, or \<^verbatim>\<open>suggested_input\<close> of an entry that does not exist,
  throws after the marking is done; the error of a listener is reported and nothing else
  happens.
\<close>

definition selectOption :: "nat \<Rightarrow> nat \<Rightarrow> card_kind \<Rightarrow> scanner \<Rightarrow> scanner" where
  "selectOption k index type s =
     (let s1 = s\<lparr>body := map deselect_all (body s)\<rparr>;
          s2 = s1\<lparr>body := update_overlay
                     (\<lambda>v. v\<lparr>cards := (cards v)[k := select (cards v ! k)]\<rparr>) (body s1)\<rparr>;
          chosen =
            (case confirmationData s of
               None \<Rightarrow> Inl (TypeError ''detected_content'')
             | Some d \<Rightarrow>
                 (case (case type of
                          Question \<Rightarrow> nth_opt (questions d) index
                        | Topic \<Rightarrow> nth_opt (topics d) index
                        | Concept \<Rightarrow> Some (primary_concept d)) of
                    None \<Rightarrow> Inl (TypeError ''suggested_input'')
                  | Some c \<Rightarrow> Inr c)) in
      case chosen of
        Inl e \<Rightarrow> s2\<lparr>uncaught := uncaught s2 @ [e]\<rparr>
      | Inr c \<Rightarrow>
          s2\<lparr>body := update_overlay (\<lambda>v. v\<lparr>confirmed_input := suggested_input c\<rparr>) (body s2)\<rparr>)"

text \<open>
  The listeners of \<^verbatim>\<open>bindConfirmationEvents\<close>: a click on the \<open>k\<close>-th card of the overlay
  calls \<^verbatim>\<open>selectOption\<close> with the card and the type of its class. A card that is not in
  the document cannot be clicked.
\<close>

definition click_card :: "nat \<Rightarrow> scanner \<Rightarrow> scanner" where
  "click_card k s =
     (case find_overlay (body s) of
        None \<Rightarrow> s
      | Some v \<Rightarrow>
          if k < length (cards v)
          then selectOption k (data_index (cards v ! k)) (card_kind (cards v ! k)) s
          else s)"

fun click_cards :: "nat list \<Rightarrow> scanner \<Rightarrow> scanner" where
  "click_cards [] s = s"
| "click_cards (k # ks) s = click_cards ks (click_card k s)"

text \<open>
  \<^verbatim>\<open>showARResults\<close>: the video element gets the narrated URL, or else the original one.
  The generation info and the document links it also writes are not kept.
\<close>

definition showARResults :: "generation_reply \<Rightarrow> scanner \<Rightarrow> scanner" where
  "showARResults r s =
     (let videoUrl = (case g_video_urls r of
                        None \<Rightarrow> None
                      | Some u \<Rightarrow> or_opt (narrated u) (original u));
          s1 = (if truthy videoUrl
                then s\<lparr>arVideo_src := videoUrl, arVideo_display := ''block''\<rparr>
                else s) in
      s1\<lparr>arResults_display := ''flex''\<rparr>)"

definition closeArResults :: "scanner \<Rightarrow> scanner" where
  "closeArResults s = s\<lparr>arResults_display := ''none''\<rparr>"

definition proceedWithConfirmedInput ::
  "generation_reply fetch_outcome \<Rightarrow> scanner \<Rightarrow> scanner" where
  "proceedWithConfirmedInput outcome s =
     (case find_overlay (body s) of
        None \<Rightarrow> s\<lparr>uncaught := uncaught s @ [TypeError ''querySelector'']\<rparr>
      | Some v \<Rightarrow>
          (let confirmedInput = trim (confirmed_input v) in
           if confirmedInput = []
           then alert (Alert ''Please enter or select content to proceed'') s
           else
             (let s1 = showARLoading (closeConfirmation s);
                  s2 = fetch (post_form ''/api/generate-content''
                                [(''input_text'', Text confirmedInput),
                                 (''complexity'', Text (confirmed_complexity v)),
                                 (''language'', Text (confirmed_language v))]) s1;
                  failed = (\<lambda>e t. alert (AlertError ''Content generation failed: '' e)
                                     (hideARLoading t)) in
              case outcome of
                Rejects m \<Rightarrow> failed (Error m) s2
              | Resolves ok status text parsed \<Rightarrow>
                  (case parsed of
                     Inl e \<Rightarrow> failed (Error e) s2
                   | Inr r \<Rightarrow>
                       if g_success r then showARResults r (hideARLoading s2)
                       else failed (Error (or_else (g_error r) ''Generation failed'')) s2))))"

subsection \<open>Everything the user and the browser can do to the scanner\<close>

datatype scanner_event =
    Camera camera_event
  | ClickSelectRegion
  | ClickFeed "real \<times> real" "real \<times> real" "string + string" "analysis_reply fetch_outcome"
  | ClickCapture "string + string" "analysis_reply fetch_outcome"
  | ChooseFile "string option" "analysis_reply fetch_outcome"
  | ClickCard nat
  | EditInput string
  | ClickGenerate "generation_reply fetch_outcome"
  | ClickRetake
  | ClickCancel
  | ClickCloseResults

fun scanner_step :: "scanner_event \<Rightarrow> scanner \<Rightarrow> scanner" where
  "scanner_step (Camera e) s = camera_step e s"
| "scanner_step ClickSelectRegion s = toggleRegionSelection s"
| "scanner_step (ClickFeed rect event frame outcome) s = handleCameraClick rect event frame outcome s"
| "scanner_step (ClickCapture frame outcome) s = captureImage None frame outcome s"
| "scanner_step (ChooseFile file outcome) s = handleImageUpload file outcome s"
| "scanner_step (ClickCard k) s = click_card k s"
| "scanner_step (EditInput t) s =
     s\<lparr>body := update_overlay (\<lambda>v. v\<lparr>confirmed_input := t\<rparr>) (body s)\<rparr>"
| "scanner_step (ClickGenerate outcome) s =
     (if find_overlay (body s) = None then s else proceedWithConfirmedInput outcome s)"
| "scanner_step ClickRetake s = (if find_overlay (body s) = None then s else retakePhoto s)"
| "scanner_step ClickCancel s = (if find_overlay (body s) = None then s else closeConfirmation s)"
| "scanner_step ClickCloseResults s = closeArResults s"

fun scanner_run :: "scanner_event list \<Rightarrow> scanner \<Rightarrow> scanner" where
  "scanner_run [] s = s"
| "scanner_run (e # es) s = scanner_run es (scanner_step e s)"

text \<open>The elements of the document with the id \<^verbatim>\<open>confirmation-overlay\<close>.\<close>

fun overlays :: "node list \<Rightarrow> overlay list" where
  "overlays [] = []"
| "overlays (OverlayNode v # ns) = v # overlays ns"
| "overlays (OtherNode i # ns) = overlays ns"

section \<open>The manual input handler (\<^verbatim>\<open>ManualInputHandler\<close>)\<close>

text \<open>
  What \<^verbatim>\<open>displayResults\<close> writes into the page, element by element: a video container
  (a player with its source, its caption, and a link that opens the same URL), a document
  link (target and label), or a paragraph.
\<close>

datatype html =
    VideoContainer string string
  | DocumentLink string string
  | Paragraph string

record manual_handler =
  form_data :: "(string \<times> field) list"
  form_display :: string
  detectionSection_display :: string
  resultsSection_display :: string
  loadingSection_display :: string
  steps :: "nat \<Rightarrow> string option"
  video_content :: "html list"
  document_links :: "html list"
  m_alerts :: "string list"
  m_requests :: "http_request list"

text \<open>
  \<open>steps s n\<close> is the class of the element \<^verbatim>\<open>step-n\<close>, or \<open>None\<close> when the page has no
  such element; \<open>form_data\<close> stands for \<^verbatim>\<open>new FormData(this.form)\<close>.
\<close>

definition updateLoadingStep :: "nat \<Rightarrow> string \<Rightarrow> manual_handler \<Rightarrow> manual_handler" where
  "updateLoadingStep stepNumber className s =
     (case steps s stepNumber of
        None \<Rightarrow> s
      | Some c \<Rightarrow> s\<lparr>steps := (steps s)(stepNumber := Some (''step '' @ className))\<rparr>)"

definition all_steps :: "string \<Rightarrow> manual_handler \<Rightarrow> manual_handler" where
  "all_steps className s = fold (\<lambda>i. updateLoadingStep i className) [1, 2, 3, 4, 5] s"

definition showLoading :: "manual_handler \<Rightarrow> manual_handler" where
  "showLoading s =
     all_steps []
       (s\<lparr>form_display := ''none'',
          detectionSection_display := ''none'',
          resultsSection_display := ''none'',
          loadingSection_display := ''block''\<rparr>)"

definition hideLoading :: "manual_handler \<Rightarrow> manual_handler" where
  "hideLoading s = s\<lparr>loadingSection_display := ''none''\<rparr>"

text \<open>An element for a URL that is present and not empty, and nothing otherwise.\<close>

definition for_url :: "string option \<Rightarrow> (string \<Rightarrow> html) \<Rightarrow> html list" where
  "for_url v f = (case v of None \<Rightarrow> [] | Some u \<Rightarrow> if u = [] then [] else [f u])"

definition video_html :: "video_urls \<Rightarrow> html list" where
  "video_html videoUrls =
     for_url (narrated videoUrls) (\<lambda>u. VideoContainer u ''Narrated Version'')
     @ (if \<not> truthy (narrated videoUrls)
        then for_url (original videoUrls) (\<lambda>u. VideoContainer u ''Generated Video'')
        else for_url (original videoUrls) (\<lambda>u. DocumentLink u ''Original Video (No Audio)''))
     @ for_url (code videoUrls) (\<lambda>u. DocumentLink u ''Source Code'')"

definition no_urls :: video_urls where
  "no_urls = \<lparr>original = None, narrated = None, cloud_original = None, script = None, code = None\<rparr>"

definition no_documents :: documents where
  "no_documents = \<lparr>solution_url = None, explanation_url = None, summary_url = None\<rparr>"

definition documents_html :: "documents \<Rightarrow> html list" where
  "documents_html ds =
     for_url (solution_url ds) (\<lambda>u. DocumentLink u ''Solution Document'')
     @ for_url (explanation_url ds) (\<lambda>u. DocumentLink u ''Explanation Document'')
     @ for_url (summary_url ds) (\<lambda>u. DocumentLink u ''Summary Document'')"

text \<open>\<^verbatim>\<open>displayResults\<close>; the generation info it also writes is not kept.\<close>

definition displayResults :: "generation_reply \<Rightarrow> manual_handler \<Rightarrow> manual_handler" where
  "displayResults r s =
     (let videoHtml = video_html (case g_video_urls r of None \<Rightarrow> no_urls | Some u \<Rightarrow> u);
          documentsHtml = documents_html (case g_documents r of None \<Rightarrow> no_documents | Some d \<Rightarrow> d) in
      s\<lparr>resultsSection_display := ''block'',
        video_content :=
          (if videoHtml = []
           then [Paragraph ''Video generation completed but URLs not available. Check server logs.'']
           else videoHtml),
        document_links :=
          (if documentsHtml = [] then [Paragraph ''No additional documents generated.'']
           else documentsHtml)\<rparr>)"

text \<open>
  \<^verbatim>\<open>handleSubmit\<close>, with the delays left out. Every failure ends in the \<^verbatim>\<open>catch\<close>
  block: \<^verbatim>\<open>hideLoading\<close> and an alert.
\<close>

definition handleSubmit :: "generation_reply fetch_outcome \<Rightarrow> manual_handler \<Rightarrow> manual_handler" where
  "handleSubmit outcome s =
     (let s1 = updateLoadingStep 2 ''active'' (updateLoadingStep 1 ''active'' (showLoading s));
          s2 = s1\<lparr>m_requests := m_requests s1 @ [post_form ''/api/generate-content'' (form_data s)]\<rparr>;
          failed = (\<lambda>m t. (hideLoading t)\<lparr>m_alerts := m_alerts t @ [''Generation failed: '' @ m]\<rparr>) in
      case outcome of
        Rejects m \<Rightarrow> failed m s2
      | Resolves ok status text parsed \<Rightarrow>
          (let s3 = updateLoadingStep 3 ''active'' s2 in
           case parsed of
             Inl e \<Rightarrow> failed e s3
           | Inr r \<Rightarrow>
               (let s4 = updateLoadingStep 4 ''active'' s3 in
                if g_success r
                then displayResults r
                       (hideLoading (all_steps ''completed'' (updateLoadingStep 5 ''active'' s4)))
                else failed (or_else (g_error r) ''Generation failed'') s4)))"

text \<open>The page as it is loaded: the form is shown, the other sections are not.\<close>

definition new_manual :: "(string \<times> field) list \<Rightarrow> manual_handler" where
  "new_manual fd =
     \<lparr>form_data = fd, form_display = ''block'', detectionSection_display = ''none'',
      resultsSection_display = ''none'', loadingSection_display = ''none'',
      steps = (\<lambda>n. if 1 \<le> n \<and> n \<le> 5 then Some ''step '' else None),
      video_content = [], document_links = [], m_alerts = [], m_requests = []\<rparr>"

section \<open>The page component (\<^verbatim>\<open>PragyanAI\<close>)\<close>

datatype input_mode = TextMode | VoiceMode | ImageMode

text \<open>
  The generation result the page keeps, with the fields its handlers and its results view
  read. The same record holds the error results the handlers build themselves.
\<close>

record video_generation_result =
  v_success :: bool
  v_transcription :: "string option"
  v_video_urls :: "video_urls option"
  v_error_type :: "string option"
  v_error_message :: "string option"
  v_suggestions :: "string list option"
  v_error :: "string option"
  v_debug_audio_path :: "string option"

record image_analysis_result =
  i_success :: bool
  i_topics :: "string list option"
  i_error :: "string option"

text \<open>
  The state of the component (its \<^verbatim>\<open>useState\<close> cells) and the log of its requests.
  \<open>i_topics\<close> is \<^verbatim>\<open>data.options?.topics\<close>.
\<close>

record page =
  inputText :: string
  selectedLanguage :: string
  includeNarration :: bool
  complexity :: string
  inputMode :: input_mode
  isRecording :: bool
  recordedAudio :: "string option"
  isGenerating :: bool
  generationProgress :: nat
  result :: "video_generation_result option"
  selectedImage :: "string option"
  imagePreview :: "string option"
  imageAnalysis :: "image_analysis_result option"
  p_requests :: "http_request list"

definition new_page :: page where
  "new_page =
     \<lparr>inputText = [], selectedLanguage = ''auto'', includeNarration = True,
      complexity = ''intermediate'', inputMode = TextMode, isRecording = False,
      recordedAudio = None, isGenerating = False, generationProgress = 0, result = None,
      selectedImage = None, imagePreview = None, imageAnalysis = None, p_requests = []\<rparr>"

definition API_BASE :: string where
  "API_BASE = ''http://localhost:8000''"

definition post_json :: "string \<Rightarrow> (string \<times> field) list \<Rightarrow> http_request" where
  "post_json u b = \<lparr>req_method = ''POST'', req_url = u, req_json = True, req_body = b\<rparr>"

definition p_fetch :: "http_request \<Rightarrow> page \<Rightarrow> page" where
  "p_fetch r p = p\<lparr>p_requests := p_requests p @ [r]\<rparr>"

text \<open>The error result a handler builds: type, message and suggestions.\<close>

definition error_result ::
  "string \<Rightarrow> string \<Rightarrow> string list \<Rightarrow> string option \<Rightarrow> video_generation_result" where
  "error_result ty msg sugg dbg =
     \<lparr>v_success = False, v_transcription = None, v_video_urls = None,
      v_error_type = Some ty, v_error_message = Some msg, v_suggestions = Some sugg,
      v_error = None, v_debug_audio_path = dbg\<rparr>"

text \<open>\<^verbatim>\<open>data.suggestions || [...]\<close>: an array, even an empty one, is truthy.\<close>

definition suggestions_or :: "string list option \<Rightarrow> string list \<Rightarrow> string list" where
  "suggestions_or v d = (case v of None \<Rightarrow> d | Some l \<Rightarrow> l)"

definition text_to_video_request :: "string \<Rightarrow> page \<Rightarrow> http_request" where
  "text_to_video_request txt p =
     post_json (API_BASE @ ''/api/nlp/text-to-video'')
       [(''text'', Text txt),
        (''language'', Text (selectedLanguage p)),
        (''complexity'', Text (complexity p)),
        (''include_narration'', Flag (includeNarration p))]"

definition generateVideoFromText :: "video_generation_result fetch_outcome \<Rightarrow> page \<Rightarrow> page" where
  "generateVideoFromText outcome p =
     (if trim (inputText p) = [] then p
      else
        (let p1 = p\<lparr>isGenerating := True, generationProgress := 10, result := None\<rparr>;
             p2 = p_fetch (text_to_video_request (inputText p) p) p1;
             caught = (\<lambda>m. p2\<lparr>result := Some (error_result ''Network Error'' m
                                 [''Check your internet connection'',
                                  ''Verify the backend is running''] None)\<rparr>);
             p3 = (case outcome of
                     Rejects m \<Rightarrow> caught m
                   | Resolves ok status text parsed \<Rightarrow>
                       (case parsed of
                          Inl e \<Rightarrow> caught e
                        | Inr data \<Rightarrow>
                            p2\<lparr>generationProgress := 100,
                               result := Some
                                 (if v_success data then data
                                  else error_result
                                         (or_else (v_error_type data) ''Generation Error'')
                                         (or_else (v_error_message data)
                                            (or_else (v_error data) ''Text generation failed''))
                                         (suggestions_or (v_suggestions data)
                                            [''Please try rephrasing your request'',
                                             ''Check if the topic is educational''])
                                         None)\<rparr>)) in
         p3\<lparr>isGenerating := False\<rparr>))"

text \<open>
  \<^verbatim>\<open>generateVideoFromVoice\<close>: \<open>read\<close> is what the \<^verbatim>\<open>FileReader\<close> delivers, \<open>None\<close> when
  it fails and \<^verbatim>\<open>onload\<close> never runs. The request is sent inside the \<^verbatim>\<open>onload\<close>
  callback, outside the \<^verbatim>\<open>try\<close> of the handler: a rejection there is caught by nothing
  and the callback ends where it stands.
\<close>

definition generateVideoFromVoice ::
  "string option \<Rightarrow> video_generation_result fetch_outcome \<Rightarrow> page \<Rightarrow> page" where
  "generateVideoFromVoice read outcome p =
     (case recordedAudio p of
        None \<Rightarrow> p
      | Some audio \<Rightarrow>
          (let p1 = p\<lparr>isGenerating := True, generationProgress := 10, result := None\<rparr> in
           case read of
             None \<Rightarrow> p1
           | Some audioBase64 \<Rightarrow>
               (let p2 = p_fetch (post_json (API_BASE @ ''/api/nlp/voice-to-video'')
                                    [(''audio'', Text audioBase64),
                                     (''language'', Text (selectedLanguage p))])
                           (p1\<lparr>generationProgress := 30\<rparr>) in
                case outcome of
                  Rejects m \<Rightarrow> p2
                | Resolves ok status text parsed \<Rightarrow>
                    (case parsed of
                       Inl e \<Rightarrow> p2
                     | Inr data \<Rightarrow>
                         p2\<lparr>generationProgress := 100,
                            result := Some
                              (if v_success data then data
                               else error_result
                                      (or_else (v_error_type data) ''Voice Processing Error'')
                                      (or_else (v_error_message data)
                                         (or_else (v_error data) ''Voice generation failed''))
                                      (suggestions_or (v_suggestions data)
                                         [''Try speaking more clearly'',
                                          ''Check microphone quality''])
                                      (v_debug_audio_path data)),
                            isGenerating := False\<rparr>))))"

text \<open>
  \<^verbatim>\<open>generateVideoFromAnalyzedImage\<close>; the analysis it copies into a successful result is a
  field the results view never reads and is not kept.
\<close>

definition generateVideoFromAnalyzedImage ::
  "string \<Rightarrow> video_generation_result fetch_outcome \<Rightarrow> page \<Rightarrow> page" where
  "generateVideoFromAnalyzedImage topic outcome p =
     (let p1 = p_fetch (text_to_video_request
                          (''Explain '' @ topic @ '' based on this educational content'') p) p;
          caught = (\<lambda>m. p1\<lparr>result := Some (error_result ''Generation Error'' m
                              [''Try again with a different approach'',
                               ''Check the backend connection''] None)\<rparr>);
          p2 = (case outcome of
                  Rejects m \<Rightarrow> caught m
                | Resolves ok status text parsed \<Rightarrow>
                    (case parsed of
                       Inl e \<Rightarrow> caught e
                     | Inr data \<Rightarrow>
                         p1\<lparr>generationProgress := 100,
                            result := Some
                              (if v_success data then data
                               else error_result ''Video Generation Error''
                                      (or_else (v_error_message data)
                                         ''Failed to generate video from analyzed content'')
                                      (suggestions_or (v_suggestions data)
                                         [''Try a different image'', ''Simplify the content''])
                                      None)\<rparr>)) in
      p2\<lparr>isGenerating := False\<rparr>)"

definition analyzeImage ::
  "string option \<Rightarrow> image_analysis_result fetch_outcome \<Rightarrow> video_generation_result fetch_outcome
     \<Rightarrow> page \<Rightarrow> page" where
  "analyzeImage read analysis generation p =
     (case selectedImage p of
        None \<Rightarrow> p
      | Some img \<Rightarrow>
          (let p1 = p\<lparr>isGenerating := True, generationProgress := 10, imageAnalysis := None\<rparr> in
           case read of
             None \<Rightarrow> p1
           | Some imageBase64 \<Rightarrow>
               (let p2 = p_fetch (post_json (API_BASE @ ''/api/analyze-educational-image'')
                                    [(''image'', Text imageBase64)])
                           (p1\<lparr>generationProgress := 50\<rparr>) in
                case analysis of
                  Rejects m \<Rightarrow> p2
                | Resolves ok status text parsed \<Rightarrow>
                    (case parsed of
                       Inl e \<Rightarrow> p2
                     | Inr data \<Rightarrow>
                         (let p3 = p2\<lparr>generationProgress := 70, imageAnalysis := Some data\<rparr> in
                          case (if i_success data then i_topics data else None) of
                            Some (topic # others) \<Rightarrow>
                              generateVideoFromAnalyzedImage topic generation p3
                          | _ \<Rightarrow>
                              p3\<lparr>result := Some
                                    (error_result ''Image Analysis Error''
                                       (or_else (i_error data) ''Could not analyze the image content'')
                                       [''Try uploading a clearer image'',
                                        ''Ensure the image contains educational content'']
                                       None),
                                 isGenerating := False\<rparr>)))))"

text \<open>What one click on the generate button meets: the file reader and the backend.\<close>

record world =
  file_read :: "string option"
  analysis_outcome :: "image_analysis_result fetch_outcome"
  generation_outcome :: "video_generation_result fetch_outcome"

definition handleGenerate :: "world \<Rightarrow> page \<Rightarrow> page" where
  "handleGenerate w p =
     (case inputMode p of
        TextMode \<Rightarrow> generateVideoFromText (generation_outcome w) p
      | VoiceMode \<Rightarrow> generateVideoFromVoice (file_read w) (generation_outcome w) p
      | ImageMode \<Rightarrow> analyzeImage (file_read w) (analysis_outcome w) (generation_outcome w) p)"

text \<open>
  The results section of the page, as the elements the claims speak of: the progress bar, the
  player, the quality panel, the two links of the success view, the error panel and the
  empty state. The panel of the transcription is left out.
\<close>

datatype widget =
    LoadingBar nat
  | VideoPlayer string
  | QualityMetrics
  | DownloadLink string
  | ScriptLink string
  | ErrorPanel string "string option" "string list"
  | EmptyState

definition for_truthy :: "string option \<Rightarrow> (string \<Rightarrow> widget) \<Rightarrow> widget list" where
  "for_truthy v f = (case v of None \<Rightarrow> [] | Some u \<Rightarrow> if u = [] then [] else [f u])"

definition success_view :: "video_generation_result \<Rightarrow> widget list" where
  "success_view r =
     (let urls = (case v_video_urls r of None \<Rightarrow> no_urls | Some u \<Rightarrow> u) in
      for_truthy (cloud_original urls) VideoPlayer
      @ [QualityMetrics]
      @ for_truthy (cloud_original urls) DownloadLink
      @ for_truthy (script urls) ScriptLink)"

definition error_view :: "video_generation_result \<Rightarrow> widget list" where
  "error_view r =
     [ErrorPanel (or_else (v_error_type r) ''Generation Failed'')
        (or_opt (v_error_message r) (v_error r))
        (suggestions_or (v_suggestions r) [])]"

definition results_section :: "page \<Rightarrow> widget list" where
  "results_section p =
     (if isGenerating p then [LoadingBar (generationProgress p)] else [])
     @ (case result p of
          None \<Rightarrow> []
        | Some r \<Rightarrow> if v_success r then success_view r else error_view r)
     @ (if \<not> isGenerating p \<and> result p = None then [EmptyState] else [])"

text \<open>The sources of the video players among the widgets.\<close>

fun players :: "widget list \<Rightarrow> string list" where
  "players [] = []"
| "players (VideoPlayer u # ws) = u # players ws"
| "players (w # ws) = players ws"

text \<open>The generate button is disabled while generating and while the mode's input is empty.\<close>

definition generate_disabled :: "page \<Rightarrow> bool" where
  "generate_disabled p =
     (isGenerating p \<or>
      (case inputMode p of
         TextMode \<Rightarrow> trim (inputText p) = []
       | VoiceMode \<Rightarrow> recordedAudio p = None
       | ImageMode \<Rightarrow> selectedImage p = None))"

section \<open>The audio helper (\<^verbatim>\<open>EnhancedAudioInput\<close>)\<close>

text \<open>
  A blob is its bytes and its type; \<^verbatim>\<open>new Blob(parts, {type})\<close> concatenates the parts.
\<close>

datatype blob = Blob (blob_bytes: string) (blob_type: string)

definition new_Blob :: "blob list \<Rightarrow> string \<Rightarrow> blob" where
  "new_Blob parts ty = Blob (concat (map blob_bytes parts)) ty"

text \<open>
  The helper's fields. \<open>mediaRecorder\<close> holds the stream the recorder was created on.
  The registered callback is a function of the caller's; the model keeps whether one is
  registered and the blobs it has been called with, in order.
\<close>

record audio_input =
  mediaRecorder :: "nat option"
  audioChunks :: "blob list"
  ea_isRecording :: bool
  currentStream :: "nat option"
  onRecordingComplete :: bool
  completed :: "blob list"

text \<open>
  What the browser answers: the stream \<^verbatim>\<open>getUserMedia\<close> grants (or \<open>None\<close>), and whether
  the \<^verbatim>\<open>MediaRecorder\<close> constructor accepts the stream and the mime type.
\<close>

record microphone =
  granted_stream :: "nat option"
  recorder_supported :: bool

definition new_audio_input :: audio_input where
  "new_audio_input =
     \<lparr>mediaRecorder = None, audioChunks = [], ea_isRecording = False, currentStream = None,
      onRecordingComplete = False, completed = []\<rparr>"

definition setRecordingCompleteCallback :: "audio_input \<Rightarrow> audio_input" where
  "setRecordingCompleteCallback s = s\<lparr>onRecordingComplete := True\<rparr>"

text \<open>\<^verbatim>\<open>restartAudioMonitoring\<close> keeps the stream for recording; a denial is caught inside.\<close>

definition restartAudioMonitoring :: "microphone \<Rightarrow> audio_input \<Rightarrow> audio_input" where
  "restartAudioMonitoring mic s =
     (case granted_stream mic of
        None \<Rightarrow> s
      | Some st \<Rightarrow> s\<lparr>currentStream := Some st\<rparr>)"

text \<open>The two handlers \<^verbatim>\<open>startRecording\<close> installs on the recorder.\<close>

definition ondataavailable :: "blob \<Rightarrow> audio_input \<Rightarrow> audio_input" where
  "ondataavailable data s =
     (if length (blob_bytes data) > 0 then s\<lparr>audioChunks := audioChunks s @ [data]\<rparr> else s)"

definition onstop :: "audio_input \<Rightarrow> audio_input" where
  "onstop s =
     (let audioBlob = new_Blob (audioChunks s) ''audio/webm'' in
      if onRecordingComplete s then s\<lparr>completed := completed s @ [audioBlob]\<rparr> else s)"

text \<open>
  \<^verbatim>\<open>startRecording\<close>: the second component is the error it rethrows, when the recorder
  cannot be created.
\<close>

definition startRecording :: "microphone \<Rightarrow> audio_input \<Rightarrow> audio_input \<times> thrown option" where
  "startRecording mic s =
     (let s1 = (if currentStream s = None then restartAudioMonitoring mic s else s) in
      case currentStream s1 of
        None \<Rightarrow> (s1, Some (TypeError ''MediaRecorder''))
      | Some st \<Rightarrow>
          if \<not> recorder_supported mic then (s1, Some (DOMException ''NotSupportedError''))
          else (s1\<lparr>mediaRecorder := Some st, audioChunks := [], ea_isRecording := True\<rparr>, None))"

text \<open>
  \<^verbatim>\<open>stopRecording\<close>: \<^verbatim>\<open>MediaRecorder.stop()\<close> makes the recorder deliver the data it
  still holds (\<open>final\<close>) in a \<^verbatim>\<open>dataavailable\<close> event and then fire \<^verbatim>\<open>stop\<close>; neither
  handler reads the flag the method clears.
\<close>

definition stopRecording :: "blob \<Rightarrow> audio_input \<Rightarrow> audio_input" where
  "stopRecording final s =
     (if mediaRecorder s \<noteq> None \<and> ea_isRecording s
      then (onstop (ondataavailable final s))\<lparr>ea_isRecording := False\<rparr>
      else s)"

section \<open>Notions the statements use\<close>

text \<open>
  The candidates of an analysis in the order of their cards: the primary concept, the
  questions, the topics.
\<close>

definition candidates :: "confirmation_data \<Rightarrow> candidate list" where
  "candidates d = primary_concept d # questions d @ topics d"

text \<open>The positions of the cards of an overlay that carry the class \<^verbatim>\<open>selected\<close>.\<close>

definition selected_cards :: "overlay \<Rightarrow> nat list" where
  "selected_cards v = filter (\<lambda>j. is_selected (cards v ! j)) [0..<length (cards v)]"

text \<open>The entry \<^verbatim>\<open>selectOption\<close> reads for a card's type and index.\<close>

definition suggestion :: "confirmation_data \<Rightarrow> card_kind \<Rightarrow> nat \<Rightarrow> candidate option" where
  "suggestion d type index =
     (case type of
        Question \<Rightarrow> nth_opt (questions d) index
      | Topic \<Rightarrow> nth_opt (topics d) index
      | Concept \<Rightarrow> Some (primary_concept d))"

text \<open>
  The scanner holds the data \<open>d\<close> and the document has one overlay \<open>v\<close>, whose cards are
  those built from \<open>d\<close> up to their class tokens.
\<close>

definition shows_cards :: "confirmation_data \<Rightarrow> scanner \<Rightarrow> overlay \<Rightarrow> bool" where
  "shows_cards d s v =
     (confirmationData s = Some d \<and> overlays (body s) = [v] \<and>
      map card_kind (cards v) = map card_kind (overlay_cards d) \<and>
      map data_index (cards v) = map data_index (overlay_cards d))"

text \<open>An overlay after a click on its \<open>k\<close>-th card that wrote \<open>t\<close> into the text area.\<close>

definition clicked :: "nat \<Rightarrow> string \<Rightarrow> overlay \<Rightarrow> overlay" where
  "clicked k t v =
     v\<lparr>cards := (map deselect (cards v))[k := select (deselect (cards v ! k))],
       confirmed_input := t\<rparr>"

text \<open>The stream the scanner holds, as a list.\<close>

definition held :: "scanner \<Rightarrow> nat list" where
  "held s = (case stream s of None \<Rightarrow> [] | Some n \<Rightarrow> [n])"

text \<open>
  The invariant of the unhurried runs: the live streams are the one held; at most one call
  is pending; while a stream is held no call is pending and the start button is hidden.
\<close>

definition camera_inv :: "scanner \<Rightarrow> bool" where
  "camera_inv s =
     (live_streams s = held s \<and> pending_getUserMedia s \<le> 1 \<and>
      (stream s = None \<or>
         (pending_getUserMedia s = 0 \<and> startCameraBtn_display s = ''none'')))"

definition few :: "scanner \<Rightarrow> bool" where
  "few s = (length (overlays (body s)) \<le> 1)"

text \<open>The input of the active mode is empty: blank text, no recording, no image.\<close>

definition empty_input :: "page \<Rightarrow> bool" where
  "empty_input p =
     (case inputMode p of
        TextMode \<Rightarrow> list_all js_whitespace (inputText p)
      | VoiceMode \<Rightarrow> recordedAudio p = None
      | ImageMode \<Rightarrow> selectedImage p = None)"


subsection \<open>Concrete inputs\<close>

definition demo_confirmation :: confirmation_data where
  "demo_confirmation =
     \<lparr>primary_concept = \<lparr>c_key = ''Optics'', display_text = ''Optics'',
                          suggested_input = ''Explain optics''\<rparr>,
      questions = [\<lparr>c_key = ''What is refraction?'', display_text = ''What is refraction?'',
                    suggested_input = ''Solve: what is refraction?''\<rparr>],
      topics = [\<lparr>c_key = ''Lenses'', display_text = ''Lenses'',
                 suggested_input = ''Explain lenses''\<rparr>],
      best_option_type = ''question'', best_option_key = ''What is refraction?'',
      default_selection = ''Solve: what is refraction?''\<rparr>"

definition demo_analysis :: "analysis_reply fetch_outcome" where
  "demo_analysis =
     Resolves True ''200'' ''{...}''
       (Inr \<lparr>a_success = True, a_message = None, a_analysis = Some ''optics page'',
              a_confirmation_data = Some demo_confirmation\<rparr>)"

text \<open>The scanner after one capture that the backend analysed.\<close>

definition demo_confirming :: scanner where
  "demo_confirming = captureImage None (Inr ''data:image/jpeg;base64,AA'') demo_analysis new_scanner"

text \<open>The scenario of the text mode: the page with the text typed, and the backend's answer.\<close>

definition scenario_page :: page where
  "scenario_page = new_page\<lparr>inputText := ''Explain photosynthesis''\<rparr>"

definition scenario_result :: "string option \<Rightarrow> video_generation_result" where
  "scenario_result cloud =
     \<lparr>v_success = True, v_transcription = None,
      v_video_urls = Some (no_urls\<lparr>original := Some ''a.mp4'', cloud_original := cloud\<rparr>),
      v_error_type = None, v_error_message = None, v_suggestions = None,
      v_error = None, v_debug_audio_path = None\<rparr>"

definition scenario_reply :: "video_generation_result fetch_outcome" where
  "scenario_reply = Resolves True ''200'' ''{...}'' (Inr (scenario_result None))"

definition demo_world :: world where
  "demo_world =
     \<lparr>file_read = Some ''data:;base64,AA'',
      analysis_outcome =
        Resolves True ''200'' ''{...}''
          (Inr \<lparr>i_success = True, i_topics = Some [''photosynthesis''], i_error = None\<rparr>),
      generation_outcome = scenario_reply\<rparr>"

text \<open>The analysis answered, succeeded and found at least one topic.\<close>

fun topic_found :: "image_analysis_result fetch_outcome \<Rightarrow> bool" where
  "topic_found (Resolves ok status tx (Inr d)) =
     (i_success d \<and> (case i_topics d of None \<Rightarrow> False | Some ts \<Rightarrow> ts \<noteq> []))"
| "topic_found out = False"

text \<open>The generation answered with a body that parses and reports success.\<close>

fun generation_succeeded :: "generation_reply fetch_outcome \<Rightarrow> bool" where
  "generation_succeeded (Resolves ok status tx (Inr r)) = g_success r"
| "generation_succeeded out = False"

definition demo_form :: "(string \<times> field) list" where
  "demo_form =
     [(''input_text'', Text ''Explain photosynthesis''),
      (''complexity'', Text ''intermediate''),
      (''language'', Text ''english'')]"

definition failed_generation :: "generation_reply fetch_outcome" where
  "failed_generation =
     Resolves True ''200'' ''{...}''
       (Inr \<lparr>g_success = False, g_error = Some ''no content detected'',
              g_video_urls = None, g_documents = None\<rparr>)"

definition voice_page :: page where
  "voice_page = new_page\<lparr>inputMode := VoiceMode, recordedAudio := Some ''<audio>''\<rparr>"

definition image_page :: page where
  "image_page = new_page\<lparr>inputMode := ImageMode, selectedImage := Some ''page.png''\<rparr>"


definition demo_microphone :: microphone where
  "demo_microphone = \<lparr>granted_stream = Some 7, recorder_supported = True\<rparr>"

text \<open>The analysis answered with an accepted status and a body that reports success.\<close>

fun analysis_succeeded :: "analysis_reply fetch_outcome \<Rightarrow> bool" where
  "analysis_succeeded (Resolves ok status tx (Inr r)) = (ok \<and> a_success r)"
| "analysis_succeeded out = False"

text \<open>
  The camera is started, a frame is captured and analysed, and the camera is stopped while
  the confirmation is open.
\<close>

definition stale_confirmation :: scanner where
  "stale_confirmation =
     scanner_run
       [Camera ClickStart, Camera Granted,
        ClickCapture (Inr ''data:image/jpeg;base64,AA'') demo_analysis,
        Camera ClickStop]
       new_scanner"

section \<open>Properties of the camera scanner\<close>

subsection \<open>What each step does to the request log and to the document\<close>

lemma requests_simps [simp]:
  "requests (alert m s) = requests s"
  "requests (hideARLoading s) = requests s"
  "requests (showARLoading s) = requests s"
  "requests (fetch r s) = requests s @ [r]"
  "requests (toggleRegionSelection s) = requests s"
  "requests (showSelectionBox s) = requests s"
  by (simp_all add: alert_def hideARLoading_def showARLoading_def fetch_def
        toggleRegionSelection_def showSelectionBox_def hideSelectionBox_def Let_def)

lemma requests_analysis_done:
  "analysis_done dflt r s = Inl (m, t) \<Longrightarrow> requests t = requests s"
  "analysis_done dflt r s = Inr t \<Longrightarrow> requests t = requests s"
  by (auto simp: analysis_done_def showIntelligentConfirmation_def createConfirmationOverlay_def
      hideARLoading_def Let_def split: option.splits prod.splits if_splits)

lemma requests_processCameraCapture:
  "requests (processCameraCapture fd out s)
     = requests s @ [post_form ''/api/process-camera-capture'' fd]"
  by (auto simp: processCameraCapture_def Let_def requests_analysis_done
      split: fetch_outcome.split option.split sum.split prod.split)

lemma requests_processImage:
  "requests (processImage fd False out s)
     = requests s @ [post_form ''/api/analyze-educational-image'' fd]"
  by (auto simp: processImage_def Let_def requests_analysis_done
      split: fetch_outcome.split option.split sum.split prod.split)

lemma overlays_remove: "overlays (remove_overlay b) = tl (overlays b)"
  by (induction b rule: remove_overlay.induct) simp_all

lemma overlays_update:
  "overlays (update_overlay f b) = (case overlays b of [] \<Rightarrow> [] | v # vs \<Rightarrow> f v # vs)"
  by (induction f b rule: update_overlay.induct) simp_all

lemma overlays_append: "overlays (b @ c) = overlays b @ overlays c"
  by (induction b rule: overlays.induct) simp_all

lemma overlays_deselect_all:
  "overlays (map deselect_all b) = map (\<lambda>v. v\<lparr>cards := map deselect (cards v)\<rparr>) (overlays b)"
  by (induction b rule: overlays.induct) simp_all

lemma find_overlay_overlays:
  "find_overlay b = (case overlays b of [] \<Rightarrow> None | v # vs \<Rightarrow> Some v)"
  by (induction b rule: overlays.induct) simp_all

lemma body_simps [simp]:
  "body (alert m s) = body s"
  "body (hideARLoading s) = body s"
  "body (showARLoading s) = body s"
  "body (fetch r s) = body s"
  "body (toggleRegionSelection s) = body s"
  "body (showSelectionBox s) = body s"
  "body (clearDetectedItems s) = body s"
  "body (closeArResults s) = body s"
  "body (showARResults g s) = body s"
  "body (closeConfirmation s) = remove_overlay (body s)"
  by (simp_all add: alert_def hideARLoading_def showARLoading_def fetch_def
        toggleRegionSelection_def showSelectionBox_def hideSelectionBox_def
        clearDetectedItems_def closeArResults_def showARResults_def closeConfirmation_def Let_def)

lemma body_camera_step [simp]: "body (camera_step e s) = body s"
  by (cases e) (simp_all add: startCamera_call_def startCamera_granted_def startCamera_denied_def
      stopCamera_def Let_def split: option.split)

lemma body_createConfirmationOverlay:
  "body (fst (createConfirmationOverlay cd s)) =
     remove_overlay (body s)
     @ (case cd of None \<Rightarrow> [] | Some d \<Rightarrow> [OverlayNode (new_overlay (html_textarea s) d)])"
  by (simp add: createConfirmationOverlay_def Let_def split: option.split)

lemma demo_confirming_state:
  "confirmationData demo_confirming = Some demo_confirmation"
  "body demo_confirming = [OverlayNode (new_overlay plain_textarea demo_confirmation)]"
  by (simp_all add: demo_confirming_def demo_analysis_def captureImage_def processCameraCapture_def
      analysis_done_def showIntelligentConfirmation_def createConfirmationOverlay_def
      showARLoading_def hideARLoading_def fetch_def new_scanner_def Let_def)

subsection \<open>Region selection\<close>

lemma end_selection_min:
  "end_selection (x1, y1) (x2, y2) =
     \<lparr>r_startX = x1, r_startY = y1, r_width = \<bar>x2 - x1\<bar>, r_height = \<bar>y2 - y1\<bar>,
      r_x = min x1 x2, r_y = min y1 y2\<rparr>"
  by (simp add: end_selection_def Let_def min_def)

text \<open>
  Claim C2. In selection mode with no corner recorded yet, two clicks on the feed at the
  points \<open>(x1, y1)\<close> and then \<open>(x2, y2)\<close> (the click positions relative to the feed) issue one
  capture request, and the region it carries has width \<open>|x2 - x1|\<close>, height \<open>|y2 - y1|\<close>,
  \<open>x = min x1 x2\<close> and \<open>y = min y1 y2\<close>. The object also keeps the start corner.
\<close>

theorem region_selection_rectangle:
  assumes "isSelecting s" and "selectedRegion s = None"
    and "x1 = fst e1 - fst rect1" and "y1 = snd e1 - snd rect1"
    and "x2 = fst e2 - fst rect2" and "y2 = snd e2 - snd rect2"
  shows "requests (handleCameraClick rect2 e2 (Inr url) out2
                    (handleCameraClick rect1 e1 frame1 out1 s))
         = requests s @
           [post_form ''/api/process-camera-capture''
              [(''image_data'', Text url),
               (''selected_region'',
                RegionJSON \<lparr>r_startX = x1, r_startY = y1,
                            r_width = \<bar>x2 - x1\<bar>, r_height = \<bar>y2 - y1\<bar>,
                            r_x = min x1 x2, r_y = min y1 y2\<rparr>)]]"
proof -
  let ?s1 = "handleCameraClick rect1 e1 frame1 out1 s"
  have s1: "?s1 = showSelectionBox (s\<lparr>selectedRegion := Some (x1, y1)\<rparr>)"
    using assms by (simp add: handleCameraClick_def handleRegionSelection_def Let_def)
  have sel: "isSelecting ?s1" "selectedRegion ?s1 = Some (x1, y1)" "requests ?s1 = requests s"
    using assms(1) by (simp_all add: s1 showSelectionBox_def)
  show ?thesis
    unfolding handleCameraClick_def[of rect2] handleRegionSelection_def[of rect2] Let_def
    using sel assms(5,6)
    by (simp add: captureImage_def Let_def requests_processCameraCapture end_selection_min)
qed

text \<open>The spec's example: the points (50,50) and then (30,80).\<close>

theorem region_selection_rectangle_witness:
  "isSelecting (new_scanner\<lparr>isSelecting := True\<rparr>)
   \<and> selectedRegion (new_scanner\<lparr>isSelecting := True\<rparr>) = None
   \<and> requests (handleCameraClick (0, 0) (30, 80) (Inr ''data:image/jpeg;base64,AA'') demo_analysis
                (handleCameraClick (0, 0) (50, 50) (Inr ''data:image/jpeg;base64,AA'') demo_analysis
                   (new_scanner\<lparr>isSelecting := True\<rparr>)))
     = [post_form ''/api/process-camera-capture''
          [(''image_data'', Text ''data:image/jpeg;base64,AA''),
           (''selected_region'',
            RegionJSON \<lparr>r_startX = 50, r_startY = 50, r_width = 20, r_height = 30,
                        r_x = 30, r_y = 50\<rparr>)]]"
  using region_selection_rectangle [of "new_scanner\<lparr>isSelecting := True\<rparr>" 50 "(50, 50)" "(0, 0)"
      50 30 "(30, 80)" "(0, 0)" 80 "''data:image/jpeg;base64,AA''" demo_analysis
      "Inr ''data:image/jpeg;base64,AA''" demo_analysis]
  by (simp add: new_scanner_def)

subsection \<open>Camera streams\<close>

lemma camera_inv_step:
  assumes "camera_inv s" and "e \<noteq> ClickStart \<or> pending_getUserMedia s = 0"
  shows "camera_inv (camera_step e s)"
proof (cases e)
  case ClickStart
  with assms show ?thesis
    by (auto simp: camera_inv_def held_def clickable_def startCamera_call_def)
next
  case Granted
  with assms show ?thesis
    by (auto simp: camera_inv_def held_def startCamera_granted_def Let_def)
next
  case Denied
  with assms show ?thesis
    by (auto simp: camera_inv_def held_def startCamera_denied_def)
next
  case ClickStop
  with assms show ?thesis
    by (auto simp: camera_inv_def held_def stopCamera_def clearDetectedItems_def split: option.splits)
qed

lemma camera_inv_run:
  "camera_inv s \<Longrightarrow> unhurried es s \<Longrightarrow> camera_inv (camera_run es s)"
  by (induction es arbitrary: s) (simp_all add: camera_inv_step)

text \<open>
  Claim C4, as stated, fails: \<^verbatim>\<open>startCamera\<close> releases nothing. Two clicks on the start
  button before the browser has answered the first call give two granted streams; the
  scanner holds the second, the first stays live, and \<^verbatim>\<open>stopCamera\<close> then stops only the
  second.
\<close>

theorem two_live_camera_streams:
  "live_streams (camera_run [ClickStart, ClickStart, Granted, Granted] new_scanner) = [1, 0]
   \<and> stream (camera_run [ClickStart, ClickStart, Granted, Granted] new_scanner) = Some 1
   \<and> live_streams (camera_run [ClickStart, ClickStart, Granted, Granted, ClickStop] new_scanner) = [0]
   \<and> stream (camera_run [ClickStart, ClickStart, Granted, Granted, ClickStop] new_scanner) = None"
  by (simp add: new_scanner_def clickable_def startCamera_call_def startCamera_granted_def
      stopCamera_def clearDetectedItems_def Let_def)

text \<open>
  Claim C4, amended. From a scanner that holds no stream, in every run in which the start
  button is not clicked while a call of \<^verbatim>\<open>getUserMedia\<close> is pending, the live streams are
  exactly the one stream the scanner holds (none when it holds none). And \<^verbatim>\<open>stopCamera\<close>,
  in any state, clears the handle and leaves the stream it held without a live track.
\<close>

theorem one_live_camera_stream:
  assumes "stream s = None" and "live_streams s = []" and "pending_getUserMedia s = 0"
    and "unhurried es s"
  shows "live_streams (camera_run es s) =
           (case stream (camera_run es s) of None \<Rightarrow> [] | Some n \<Rightarrow> [n])
       \<and> stream (stopCamera t) = None
       \<and> (case stream t of None \<Rightarrow> True | Some n \<Rightarrow> n \<notin> set (live_streams (stopCamera t)))"
proof (intro conjI)
  have "camera_inv s" using assms(1-3) by (simp add: camera_inv_def held_def)
  from camera_inv_run[OF this assms(4)]
  show "live_streams (camera_run es s) =
           (case stream (camera_run es s) of None \<Rightarrow> [] | Some n \<Rightarrow> [n])"
    by (simp add: camera_inv_def held_def)
  show "stream (stopCamera t) = None"
    by (simp add: stopCamera_def clearDetectedItems_def split: option.split)
  show "case stream t of None \<Rightarrow> True | Some n \<Rightarrow> n \<notin> set (live_streams (stopCamera t))"
    by (simp add: stopCamera_def clearDetectedItems_def split: option.split)
qed

theorem one_live_camera_stream_witness:
  "unhurried [ClickStart, Granted, ClickStop, ClickStart, Granted] new_scanner
   \<and> live_streams (camera_run [ClickStart, Granted, ClickStop, ClickStart, Granted] new_scanner) = [1]
   \<and> stream (camera_run [ClickStart, Granted, ClickStop, ClickStart, Granted] new_scanner) = Some 1
   \<and> live_streams (stopCamera (camera_run [ClickStart, Granted] new_scanner)) = []"
  using one_live_camera_stream [of new_scanner "[ClickStart, Granted, ClickStop, ClickStart, Granted]"
      "camera_run [ClickStart, Granted] new_scanner"]
  by (simp add: new_scanner_def clickable_def startCamera_call_def startCamera_granted_def
      stopCamera_def clearDetectedItems_def Let_def)

subsection \<open>One confirmation overlay\<close>

lemma few_create: "few s \<Longrightarrow> few (fst (createConfirmationOverlay cd s))"
  by (simp add: few_def body_createConfirmationOverlay overlays_append overlays_remove
      split: option.split)

lemma few_analysis_done:
  assumes f: "few s"
  shows "analysis_done dflt r s = Inl (m, t) \<Longrightarrow> few t"
    and "analysis_done dflt r s = Inr t \<Longrightarrow> few t"
proof -
  let ?s0 = "hideARLoading (s\<lparr>analysisResult := a_analysis r,
                              confirmationData := a_confirmation_data r\<rparr>)"
  have "few ?s0" using f by (simp add: few_def)
  from few_create[OF this, of "a_confirmation_data r"]
  have c: "few (fst (createConfirmationOverlay (a_confirmation_data r) ?s0))" .
  show "analysis_done dflt r s = Inl (m, t) \<Longrightarrow> few t"
    using c f by (auto simp: analysis_done_def showIntelligentConfirmation_def
        split: prod.splits option.splits if_splits)
  show "analysis_done dflt r s = Inr t \<Longrightarrow> few t"
    using c f by (auto simp: analysis_done_def showIntelligentConfirmation_def few_def
        split: prod.splits option.splits if_splits)
qed

lemma few_simps [simp]:
  "few (fetch q s) = few s"
  "few (alert m s) = few s"
  "few (hideARLoading s) = few s"
  "few (showARLoading s) = few s"
  by (simp_all add: few_def)

lemma few_processCameraCapture: "few s \<Longrightarrow> few (processCameraCapture fd out s)"
  by (auto simp: processCameraCapture_def Let_def
      split: fetch_outcome.split option.split sum.split prod.split
      dest: few_analysis_done[rotated])

lemma few_processImage: "few s \<Longrightarrow> few (processImage fd c out s)"
  by (auto simp: processImage_def Let_def
      split: fetch_outcome.split option.split sum.split prod.split
      dest: few_analysis_done[rotated])

lemma few_captureImage: "few s \<Longrightarrow> few (captureImage rg frame out s)"
  by (auto simp: captureImage_def Let_def few_processCameraCapture split: sum.split)

lemma few_click_card: "few s \<Longrightarrow> few (click_card k s)"
  by (auto simp: click_card_def selectOption_def Let_def few_def overlays_update
      overlays_deselect_all split: option.split list.split card_kind.split)

lemma few_proceed: "few s \<Longrightarrow> few (proceedWithConfirmedInput out s)"
  by (auto simp: proceedWithConfirmedInput_def Let_def few_def overlays_remove
      split: option.split fetch_outcome.split sum.split)

lemma few_step: "few s \<Longrightarrow> few (scanner_step e s)"
proof (cases e)
  case (ClickFeed rect ev frame out)
  assume "few s"
  then show ?thesis using few_captureImage[of s]
    by (auto simp: ClickFeed handleCameraClick_def handleRegionSelection_def Let_def few_def
        split: option.split)
next
  case (ChooseFile f out)
  assume "few s"
  then show ?thesis
    by (auto simp: ChooseFile handleImageUpload_def few_processImage split: option.split)
next
  case (ClickCapture frame out)
  assume "few s"
  then show ?thesis by (simp add: ClickCapture few_captureImage)
next
  case (ClickCard k)
  assume "few s"
  then show ?thesis by (simp add: ClickCard few_click_card)
next
  case (ClickGenerate out)
  assume "few s"
  then show ?thesis by (simp add: ClickGenerate few_proceed)
qed (auto simp: retakePhoto_def few_def overlays_update overlays_remove split: list.split)

lemma few_run: "few s \<Longrightarrow> few (scanner_run es s)"
  by (induction es arbitrary: s) (simp_all add: few_step)

text \<open>
  Claim C10. If the document has at most one confirmation overlay, it has at most one after
  any sequence of events of the scanner (captures, uploads, card clicks, generate, retake,
  cancel, camera events); creating an overlay leaves exactly one, and closing leaves none.
\<close>

theorem at_most_one_confirmation_overlay:
  assumes "length (overlays (body s)) \<le> 1"
  shows "length (overlays (body (scanner_run es s))) \<le> 1
       \<and> length (overlays (body (fst (createConfirmationOverlay (Some d) s)))) = 1
       \<and> overlays (body (closeConfirmation s)) = []"
proof (intro conjI)
  show "length (overlays (body (scanner_run es s))) \<le> 1"
    using few_run[of s es] assms by (simp add: few_def)
  show "length (overlays (body (fst (createConfirmationOverlay (Some d) s)))) = 1"
    using assms by (simp add: body_createConfirmationOverlay overlays_append overlays_remove)
  show "overlays (body (closeConfirmation s)) = []"
    using assms by (cases "overlays (body s)") (simp_all add: overlays_remove)
qed

text \<open>Two more analysed captures on top of an open confirmation still leave one overlay.\<close>

theorem at_most_one_confirmation_overlay_witness:
  "length (overlays (body demo_confirming)) \<le> 1
   \<and> length (overlays (body (scanner_run
        [ClickCapture (Inr ''data:image/jpeg;base64,BB'') demo_analysis,
         ChooseFile (Some ''page.png'') demo_analysis] demo_confirming))) \<le> 1
   \<and> length (overlays (body (fst (createConfirmationOverlay (Some demo_confirmation)
        demo_confirming)))) = 1
   \<and> overlays (body (closeConfirmation demo_confirming)) = []"
  using at_most_one_confirmation_overlay [of demo_confirming
        "[ClickCapture (Inr ''data:image/jpeg;base64,BB'') demo_analysis,
         ChooseFile (Some ''page.png'') demo_analysis]" demo_confirmation]
  by (simp add: demo_confirming_state)

subsection \<open>Selecting a candidate\<close>

lemma length_overlay_cards: "length (overlay_cards d) = length (candidates d)"
  by (simp add: overlay_cards_def candidates_def)

lemma suggestion_overlay_cards:
  assumes "k < length (candidates d)"
  shows "suggestion d (card_kind (overlay_cards d ! k)) (data_index (overlay_cards d ! k))
         = Some (candidates d ! k)"
proof (cases k)
  case 0
  then show ?thesis
    by (simp add: overlay_cards_def candidates_def suggestion_def concept_card_def)
next
  case (Suc j)
  show ?thesis
  proof (cases "j < length (questions d)")
    case True
    then show ?thesis using Suc
      by (simp add: overlay_cards_def candidates_def suggestion_def question_card_def nth_append
          nth_enumerate_eq nth_opt_def)
  next
    case False
    then have "j - length (questions d) < length (topics d)"
      using assms Suc by (simp add: candidates_def)
    then show ?thesis using Suc False
      by (simp add: overlay_cards_def candidates_def suggestion_def topic_card_def nth_append
          nth_enumerate_eq nth_opt_def)
  qed
qed

lemma filter_eq_single: "k < n \<Longrightarrow> filter (\<lambda>j. j = k) [0..<n] = [k]"
  by (induction n) (auto simp: less_Suc_eq)

lemma is_selected_select [simp]: "is_selected (select c)"
  by (simp add: is_selected_def select_def)

lemma is_selected_deselect [simp]: "\<not> is_selected (deselect c)"
  by (simp add: is_selected_def deselect_def)

lemma kind_index_simps [simp]:
  "card_kind (select c) = card_kind c" "data_index (select c) = data_index c"
  "card_kind (deselect c) = card_kind c" "data_index (deselect c) = data_index c"
  by (simp_all add: select_def deselect_def)

lemma shows_cards_nth:
  assumes "shows_cards d s v" and "k < length (candidates d)"
  shows "k < length (cards v)"
    and "card_kind (cards v ! k) = card_kind (overlay_cards d ! k)"
    and "data_index (cards v ! k) = data_index (overlay_cards d ! k)"
proof -
  have m: "map card_kind (cards v) = map card_kind (overlay_cards d)"
    and i: "map data_index (cards v) = map data_index (overlay_cards d)"
    using assms(1) by (simp_all add: shows_cards_def)
  from arg_cong[OF m, of length] have len: "length (cards v) = length (candidates d)"
    by (simp add: length_overlay_cards)
  show kv: "k < length (cards v)" using assms(2) len by simp
  have kn: "k < length (overlay_cards d)"
    using assms(2) by (simp add: length_overlay_cards)
  from arg_cong[OF m, of "\<lambda>xs. xs ! k"] kv kn
  show "card_kind (cards v ! k) = card_kind (overlay_cards d ! k)" by simp
  from arg_cong[OF i, of "\<lambda>xs. xs ! k"] kv kn
  show "data_index (cards v ! k) = data_index (overlay_cards d ! k)" by simp
qed

text \<open>
  What one call of \<^verbatim>\<open>selectOption\<close> does to the one overlay of the document: with the data
  held and the entry found, the card is marked alone and the text written; with the data
  missing, the card is marked alone, the text is left, and the error is reported.
\<close>

lemma selectOption_overlays:
  assumes "overlays (body s) = [v]" and "confirmationData s = Some d"
    and "k < length (cards v)" and "suggestion d type index = Some c"
  shows "overlays (body (selectOption k index type s)) = [clicked k (suggested_input c) v]"
    and "confirmationData (selectOption k index type s) = Some d"
proof -
  have ch: "(case type of
                    Question \<Rightarrow> nth_opt (questions d) index
                  | Topic \<Rightarrow> nth_opt (topics d) index
                  | Concept \<Rightarrow> Some (primary_concept d)) = Some c"
    using assms(4) by (simp add: suggestion_def)
  show "overlays (body (selectOption k index type s)) = [clicked k (suggested_input c) v]"
    unfolding selectOption_def Let_def
    by (simp add: assms(1,2,3) ch overlays_update overlays_deselect_all clicked_def)
  show "confirmationData (selectOption k index type s) = Some d"
    unfolding selectOption_def Let_def
    by (simp add: assms(2) ch)
qed

lemma selectOption_without_data:
  assumes "overlays (body s) = [v]" and "confirmationData s = None" and "k < length (cards v)"
  shows "overlays (body (selectOption k index type s)) = [clicked k (confirmed_input v) v]"
    and "uncaught (selectOption k index type s) = uncaught s @ [TypeError ''detected_content'']"
  unfolding selectOption_def Let_def
  by (simp_all add: assms overlays_update overlays_deselect_all clicked_def)

lemma selected_cards_clicked:
  assumes "k < length (cards v)"
  shows "selected_cards (clicked k t v) = [k]"
proof -
  have "filter (\<lambda>j. is_selected (cards (clicked k t v) ! j)) [0..<length (cards v)]
        = filter (\<lambda>j. j = k) [0..<length (cards v)]"
    using assms by (intro filter_cong) (auto simp: clicked_def nth_list_update)
  then show ?thesis using assms by (simp add: selected_cards_def filter_eq_single clicked_def)
qed

lemma kinds_clicked:
  assumes "k < length (cards v)"
  shows "map card_kind (cards (clicked k t v)) = map card_kind (cards v)"
    and "map data_index (cards (clicked k t v)) = map data_index (cards v)"
  using assms by (auto simp: clicked_def list_eq_iff_nth_eq nth_list_update)

lemma click_card_shows:
  assumes sh: "shows_cards d s v" and k: "k < length (candidates d)"
  shows "\<exists>v'. shows_cards d (click_card k s) v'
            \<and> confirmed_input v' = suggested_input (candidates d ! k)
            \<and> selected_cards v' = [k]"
proof -
  note n = shows_cards_nth[OF sh k]
  have sug: "suggestion d (card_kind (cards v ! k)) (data_index (cards v ! k))
             = Some (candidates d ! k)"
    using suggestion_overlay_cards[OF k] n(2,3) by simp
  have ov: "overlays (body s) = [v]" and cd: "confirmationData s = Some d"
    using sh by (simp_all add: shows_cards_def)
  have cc: "click_card k s = selectOption k (data_index (cards v ! k)) (card_kind (cards v ! k)) s"
    using ov n(1) by (simp add: click_card_def find_overlay_overlays)
  let ?v' = "clicked k (suggested_input (candidates d ! k)) v"
  note so = selectOption_overlays[OF ov cd n(1) sug]
  have "shows_cards d (click_card k s) ?v'"
    using so sh by (simp add: cc shows_cards_def kinds_clicked[OF n(1)])
  moreover have "confirmed_input ?v' = suggested_input (candidates d ! k)"
    by (simp add: clicked_def)
  moreover have "selected_cards ?v' = [k]"
    using n(1) by (rule selected_cards_clicked)
  ultimately show ?thesis by blast
qed

lemma click_cards_shows:
  assumes "shows_cards d s v" and "list_all (\<lambda>k. k < length (candidates d)) ks"
  shows "\<exists>v'. shows_cards d (click_cards ks s) v'"
  using assms
proof (induction ks arbitrary: s v)
  case Nil
  then show ?case by auto
next
  case (Cons k ks)
  from click_card_shows[OF Cons.prems(1), of k] Cons.prems(2)
  obtain v1 where "shows_cards d (click_card k s) v1" by auto
  from Cons.IH[OF this] Cons.prems(2) show ?case by simp
qed

lemma click_cards_append: "click_cards (ks @ ls) s = click_cards ls (click_cards ks s)"
  by (induction ks arbitrary: s) simp_all

text \<open>
  While the scanner holds the data \<open>d\<close> its one overlay was built from, the view does what
  is wanted of it, whatever text the text area holds and whichever cards are marked: after
  any sequence of clicks on cards that ends with the \<open>k\<close>-th card, the text area holds the
  \<^verbatim>\<open>suggested_input\<close> of the \<open>k\<close>-th candidate (concept, questions, topics, in the order of
  the cards), and the cards that carry the class \<^verbatim>\<open>selected\<close> are that card alone.
\<close>

lemma click_cards_select_last:
  assumes "shows_cards d s v"
    and "list_all (\<lambda>j. j < length (candidates d)) ks" and "k < length (candidates d)"
  shows "map confirmed_input (overlays (body (click_cards (ks @ [k]) s)))
           = [suggested_input (candidates d ! k)]
       \<and> map selected_cards (overlays (body (click_cards (ks @ [k]) s))) = [[k]]"
proof -
  from click_cards_shows[OF assms(1,2)]
  obtain v1 where "shows_cards d (click_cards ks s) v1" by auto
  from click_card_shows[OF this assms(3)]
  obtain v' where v': "shows_cards d (click_card k (click_cards ks s)) v'"
    "confirmed_input v' = suggested_input (candidates d ! k)" "selected_cards v' = [k]"
    by auto
  then show ?thesis by (simp add: click_cards_append shows_cards_def)
qed

text \<open>
  The view right after a capture is such a state, and so is the view after the user has
  typed into the text area: the question, then the concept, then the topic is clicked.
\<close>

lemma shows_cards_demo_confirming:
  "shows_cards demo_confirmation demo_confirming (new_overlay plain_textarea demo_confirmation)"
  "shows_cards demo_confirmation (scanner_step (EditInput ''my own words'') demo_confirming)
     ((new_overlay plain_textarea demo_confirmation)\<lparr>confirmed_input := ''my own words''\<rparr>)"
  by (simp_all add: shows_cards_def demo_confirming_state new_overlay_def)

lemma click_cards_demo:
  "map confirmed_input (overlays (body (click_cards [1, 0, 2] demo_confirming)))
       = [''Explain lenses'']
   \<and> map selected_cards (overlays (body (click_cards [1, 0, 2] demo_confirming))) = [[2]]"
  "map confirmed_input (overlays (body (click_cards [1, 0, 2]
       (scanner_step (EditInput ''my own words'') demo_confirming)))) = [''Explain lenses'']"
  using click_cards_select_last [OF shows_cards_demo_confirming(1), of "[1, 0]" 2]
    click_cards_select_last [OF shows_cards_demo_confirming(2), of "[1, 0]" 2]
  by (simp_all add: candidates_def demo_confirmation_def)

lemma stale_confirmation_state:
  "body stale_confirmation = [OverlayNode (new_overlay plain_textarea demo_confirmation)]"
  "confirmationData stale_confirmation = None"
  "uncaught stale_confirmation = []"
  by (simp_all add: stale_confirmation_def clickable_def startCamera_call_def
      startCamera_granted_def stopCamera_def clearDetectedItems_def
      captureImage_def processCameraCapture_def demo_analysis_def
      analysis_done_def showIntelligentConfirmation_def createConfirmationOverlay_def
      showARLoading_def hideARLoading_def fetch_def new_scanner_def Let_def)

text \<open>
  Claim C6 does not hold of the code. The camera is started and granted, a frame is
  captured and analysed, and the stop button, which the open confirmation leaves displayed,
  is clicked: \<^verbatim>\<open>stopCamera\<close> ends in \<^verbatim>\<open>clearDetectedItems\<close>, which sets
  \<^verbatim>\<open>this.confirmationData\<close> to \<^verbatim>\<open>null\<close> and leaves the overlay in the document
  (\<^verbatim>\<open>retakePhoto\<close> closes it first). A click on the topic card then marks that card alone,
  but \<^verbatim>\<open>selectOption\<close> throws on reading the data before it writes the text: the text area
  keeps the default text and not the topic's \<^verbatim>\<open>suggested_input\<close>.
\<close>

theorem click_on_stale_confirmation_keeps_text:
  "overlays (body stale_confirmation) = [new_overlay plain_textarea demo_confirmation]
   \<and> confirmationData stale_confirmation = None
   \<and> map selected_cards (overlays (body (scanner_step (ClickCard 2) stale_confirmation))) = [[2]]
   \<and> map confirmed_input (overlays (body (scanner_step (ClickCard 2) stale_confirmation)))
       = [''Solve: what is refraction?'']
   \<and> suggested_input (candidates demo_confirmation ! 2) = ''Explain lenses''
   \<and> uncaught (scanner_step (ClickCard 2) stale_confirmation) = [TypeError ''detected_content'']"
proof -
  have ov: "overlays (body stale_confirmation) = [new_overlay plain_textarea demo_confirmation]"
    by (simp add: stale_confirmation_state)
  have len: "2 < length (cards (new_overlay plain_textarea demo_confirmation))"
    by (simp add: new_overlay_def overlay_cards_def demo_confirmation_def)
  have cc: "scanner_step (ClickCard 2) stale_confirmation
            = selectOption 2
                (data_index (cards (new_overlay plain_textarea demo_confirmation) ! 2))
                (card_kind (cards (new_overlay plain_textarea demo_confirmation) ! 2))
                stale_confirmation"
    using len by (simp add: click_card_def stale_confirmation_state)
  note so = selectOption_without_data[OF ov stale_confirmation_state(2) len]
  have dflt: "confirmed_input (new_overlay plain_textarea demo_confirmation)
             = ''Solve: what is refraction?''"
    by (simp add: new_overlay_def demo_confirmation_def plain_textarea_def)
  have after: "overlays (body (scanner_step (ClickCard 2) stale_confirmation))
               = [clicked 2 (confirmed_input (new_overlay plain_textarea demo_confirmation))
                    (new_overlay plain_textarea demo_confirmation)]"
    unfolding cc by (rule so(1))
  have sel: "map selected_cards (overlays (body (scanner_step (ClickCard 2) stale_confirmation)))
             = [[2]]"
    unfolding after using selected_cards_clicked[OF len] by simp
  have kept: "map confirmed_input (overlays (body (scanner_step (ClickCard 2) stale_confirmation)))
              = [''Solve: what is refraction?'']"
    unfolding after by (simp add: clicked_def dflt)
  have wanted: "suggested_input (candidates demo_confirmation ! 2) = ''Explain lenses''"
    by (simp add: candidates_def demo_confirmation_def)
  have thrown: "uncaught (scanner_step (ClickCard 2) stale_confirmation)
                = [TypeError ''detected_content'']"
    unfolding cc using so(2) by (simp add: stale_confirmation_state)
  show ?thesis
    using ov stale_confirmation_state(2) sel kept wanted thrown by blast
qed

section \<open>Properties of the page component\<close>

lemma trim_blank: "list_all js_whitespace t \<Longrightarrow> trim t = []"
proof -
  assume "list_all js_whitespace t"
  then have "dropWhile js_whitespace t = []"
    by (induction t) simp_all
  then have "rev (dropWhile js_whitespace (rev (dropWhile js_whitespace t)))
             = rev (dropWhile js_whitespace (rev []))"
    by (rule arg_cong)
  then show ?thesis by (simp add: trim_def)
qed

lemma trim_scenario: "trim ''Explain photosynthesis'' = ''Explain photosynthesis''"
  by (simp add: trim_def js_whitespace_def)

text \<open>
  Claim C9. When the input of the active mode is empty (text of white space only, no recorded
  audio, no selected image), \<^verbatim>\<open>handleGenerate\<close> leaves the whole state of the page as it
  was: no request is added to the log, and \<open>isGenerating\<close>, \<open>generationProgress\<close> and
  \<open>result\<close> keep their values.
\<close>

theorem empty_input_is_noop:
  assumes "empty_input p"
  shows "handleGenerate w p = p"
proof (cases "inputMode p")
  case TextMode
  with assms have "trim (inputText p) = []" by (simp add: empty_input_def trim_blank)
  with TextMode show ?thesis by (simp add: handleGenerate_def generateVideoFromText_def)
next
  case VoiceMode
  with assms show ?thesis
    by (simp add: empty_input_def handleGenerate_def generateVideoFromVoice_def)
next
  case ImageMode
  with assms show ?thesis
    by (simp add: empty_input_def handleGenerate_def analyzeImage_def)
qed

theorem empty_input_is_noop_witness:
  "empty_input (new_page\<lparr>inputText := [CHR '' '', CHR 0x09, CHR 0x0A]\<rparr>)
   \<and> handleGenerate demo_world (new_page\<lparr>inputText := [CHR '' '', CHR 0x09, CHR 0x0A]\<rparr>)
       = new_page\<lparr>inputText := [CHR '' '', CHR 0x09, CHR 0x0A]\<rparr>
   \<and> empty_input (new_page\<lparr>inputMode := VoiceMode\<rparr>)
   \<and> handleGenerate demo_world (new_page\<lparr>inputMode := VoiceMode\<rparr>)
       = new_page\<lparr>inputMode := VoiceMode\<rparr>
   \<and> empty_input (new_page\<lparr>inputMode := ImageMode\<rparr>)
   \<and> handleGenerate demo_world (new_page\<lparr>inputMode := ImageMode\<rparr>)
       = new_page\<lparr>inputMode := ImageMode\<rparr>"
  using empty_input_is_noop [of "new_page\<lparr>inputText := [CHR '' '', CHR 0x09, CHR 0x0A]\<rparr>" demo_world]
    empty_input_is_noop [of "new_page\<lparr>inputMode := VoiceMode\<rparr>" demo_world]
    empty_input_is_noop [of "new_page\<lparr>inputMode := ImageMode\<rparr>" demo_world]
  by (simp add: empty_input_def new_page_def js_whitespace_def)

lemma players_append: "players (a @ b) = players a @ players b"
  by (induction a rule: players.induct) simp_all

lemma players_for_truthy:
  "players (for_truthy v VideoPlayer)
     = (case v of None \<Rightarrow> [] | Some u \<Rightarrow> if u = [] then [] else [u])"
  "players (for_truthy v DownloadLink) = []"
  "players (for_truthy v ScriptLink) = []"
  by (simp_all add: for_truthy_def split: option.split)

lemma players_success_view:
  "players (success_view r) =
     (case v_video_urls r of
        None \<Rightarrow> []
      | Some vu \<Rightarrow> (case cloud_original vu of None \<Rightarrow> [] | Some u \<Rightarrow> if u = [] then [] else [u]))"
  by (simp add: success_view_def Let_def players_append players_for_truthy no_urls_def
      split: option.split)

text \<open>
  Claim C1, as stated, fails in its last part: on the answer
  \<^verbatim>\<open>{success:true, video_urls:{original:"a.mp4"}}\<close> the results section of the page holds the
  quality panel only. No player is rendered, since the page reads
  \<^verbatim>\<open>video_urls.cloud_original\<close> and never \<^verbatim>\<open>original\<close>.
\<close>

theorem text_scenario_renders_no_player:
  "results_section (generateVideoFromText scenario_reply scenario_page) = [QualityMetrics]
   \<and> VideoPlayer ''a.mp4'' \<notin> set (results_section (generateVideoFromText scenario_reply scenario_page))"
  by (simp add: scenario_reply_def scenario_result_def scenario_page_def new_page_def
      generateVideoFromText_def trim_scenario Let_def p_fetch_def results_section_def
      success_view_def for_truthy_def no_urls_def)

text \<open>
  Claim C1, amended. Submitting a text that is not blank issues one POST to the text-to-video
  endpoint whose JSON body carries the text, the language and the complexity of the page
  (and the narration flag). On a successful answer the results section is the success view,
  and its players are: one sourcing \<^verbatim>\<open>video_urls.cloud_original\<close> when that is present and
  not empty, none otherwise. The view has no element for a narrated alternative.
\<close>

theorem text_to_video_scenario:
  assumes "trim (inputText p) \<noteq> []"
  shows "p_requests (generateVideoFromText outcome p) =
           p_requests p @
           [post_json (API_BASE @ ''/api/nlp/text-to-video'')
              [(''text'', Text (inputText p)),
               (''language'', Text (selectedLanguage p)),
               (''complexity'', Text (complexity p)),
               (''include_narration'', Flag (includeNarration p))]]
       \<and> (v_success r \<longrightarrow>
            results_section (generateVideoFromText (Resolves ok status tx (Inr r)) p)
              = success_view r
            \<and> players (success_view r) =
                (case v_video_urls r of
                   None \<Rightarrow> []
                 | Some vu \<Rightarrow>
                     (case cloud_original vu of
                        None \<Rightarrow> []
                      | Some u \<Rightarrow> if u = [] then [] else [u])))"
proof (intro conjI impI)
  show "p_requests (generateVideoFromText outcome p) =
           p_requests p @
           [post_json (API_BASE @ ''/api/nlp/text-to-video'')
              [(''text'', Text (inputText p)),
               (''language'', Text (selectedLanguage p)),
               (''complexity'', Text (complexity p)),
               (''include_narration'', Flag (includeNarration p))]]"
    using assms
    by (simp add: generateVideoFromText_def Let_def p_fetch_def text_to_video_request_def
        split: fetch_outcome.split option.split sum.split)
next
  assume "v_success r"
  then show "results_section (generateVideoFromText (Resolves ok status tx (Inr r)) p)
              = success_view r"
    using assms
    by (simp add: generateVideoFromText_def Let_def p_fetch_def results_section_def)
next
  show "players (success_view r) =
                (case v_video_urls r of
                   None \<Rightarrow> []
                 | Some vu \<Rightarrow>
                     (case cloud_original vu of
                        None \<Rightarrow> []
                      | Some u \<Rightarrow> if u = [] then [] else [u]))"
    by (rule players_success_view)
qed

text \<open>
  The scenario itself, and the same answer with a \<^verbatim>\<open>cloud_original\<close> URL added.
\<close>

theorem text_to_video_scenario_witness:
  "trim (inputText scenario_page) \<noteq> []
   \<and> p_requests (generateVideoFromText scenario_reply scenario_page) =
       [post_json ''http://localhost:8000/api/nlp/text-to-video''
          [(''text'', Text ''Explain photosynthesis''),
           (''language'', Text ''auto''),
           (''complexity'', Text ''intermediate''),
           (''include_narration'', Flag True)]]
   \<and> players (results_section (generateVideoFromText scenario_reply scenario_page)) = []
   \<and> players (results_section (generateVideoFromText
        (Resolves True ''200'' ''{...}'' (Inr (scenario_result (Some ''https://cdn/a.mp4''))))
        scenario_page)) = [''https://cdn/a.mp4'']"
  using text_to_video_scenario [of scenario_page scenario_reply "scenario_result None"
      True "''200''" "''{...}''"]
    text_to_video_scenario [of scenario_page scenario_reply
      "scenario_result (Some ''https://cdn/a.mp4'')" True "''200''" "''{...}''"]
  by (simp add: scenario_page_def scenario_reply_def scenario_result_def new_page_def
      trim_scenario no_urls_def API_BASE_def)

section \<open>Requests per action\<close>

text \<open>
  Claim C5, as stated, fails: one click on the generate button in image mode, with an
  analysis that finds a topic, issues two requests, the analysis and then the generation.
\<close>

theorem image_mode_generate_sends_two_requests:
  "map req_url (p_requests (handleGenerate demo_world image_page))
     = [''http://localhost:8000/api/analyze-educational-image'',
        ''http://localhost:8000/api/nlp/text-to-video'']"
  by (simp add: handleGenerate_def image_page_def new_page_def demo_world_def analyzeImage_def
      generateVideoFromAnalyzedImage_def text_to_video_request_def p_fetch_def post_json_def
      API_BASE_def scenario_reply_def scenario_result_def Let_def)

lemma p_requests_generateVideoFromText:
  "trim (inputText p) \<noteq> [] \<Longrightarrow>
     p_requests (generateVideoFromText out p)
       = p_requests p @ [text_to_video_request (inputText p) p]"
  by (simp add: generateVideoFromText_def Let_def p_fetch_def
      split: fetch_outcome.split option.split sum.split)

lemma p_requests_generateVideoFromVoice:
  "recordedAudio p = Some a \<Longrightarrow>
     length (p_requests (generateVideoFromVoice (Some b) out p)) = length (p_requests p) + 1"
  by (simp add: generateVideoFromVoice_def Let_def p_fetch_def
      split: fetch_outcome.split option.split sum.split)

lemma p_requests_generateVideoFromAnalyzedImage:
  "length (p_requests (generateVideoFromAnalyzedImage topic out p)) = length (p_requests p) + 1"
  by (simp add: generateVideoFromAnalyzedImage_def Let_def p_fetch_def
      split: fetch_outcome.split option.split sum.split)

lemma p_requests_analyzeImage:
  "selectedImage p = Some a \<Longrightarrow>
     length (p_requests (analyzeImage (Some b) an out p))
       = length (p_requests p) + (if topic_found an then 2 else 1)"
proof (cases an)
  case (Rejects m)
  assume "selectedImage p = Some a"
  then show ?thesis by (simp add: Rejects analyzeImage_def Let_def p_fetch_def)
next
  case (Resolves ok status tx parsed)
  assume sel: "selectedImage p = Some a"
  show ?thesis
  proof (cases parsed)
    case (Inl e)
    then show ?thesis using sel by (simp add: Resolves analyzeImage_def Let_def p_fetch_def)
  next
    case (Inr d)
    then show ?thesis using sel
      by (simp add: Resolves analyzeImage_def Let_def p_fetch_def
          p_requests_generateVideoFromAnalyzedImage split: option.split list.split)
  qed
qed

lemma requests_captureImage:
  "requests (captureImage rg (Inr url) out s)
     = requests s @ [post_form ''/api/process-camera-capture''
          ((''image_data'', Text url)
           # (case rg of None \<Rightarrow> [] | Some r \<Rightarrow> [(''selected_region'', RegionJSON r)]))]"
  by (simp add: captureImage_def Let_def requests_processCameraCapture)

lemma m_requests_updateLoadingStep [simp]:
  "m_requests (updateLoadingStep n c s) = m_requests s"
  by (simp add: updateLoadingStep_def split: option.split)

lemma m_requests_all_steps [simp]: "m_requests (all_steps c s) = m_requests s"
  by (simp add: all_steps_def)

lemma m_requests_handleSubmit:
  "m_requests (handleSubmit out s)
     = m_requests s @ [post_form ''/api/generate-content'' (form_data s)]"
  by (simp add: handleSubmit_def Let_def showLoading_def hideLoading_def displayResults_def
      split: fetch_outcome.split option.split sum.split)

lemma requests_proceed:
  "find_overlay (body s) = Some v \<Longrightarrow> trim (confirmed_input v) \<noteq> [] \<Longrightarrow>
     length (requests (proceedWithConfirmedInput out s)) = length (requests s) + 1"
  by (simp add: proceedWithConfirmedInput_def Let_def closeConfirmation_def showARResults_def
      split: fetch_outcome.split option.split sum.split)

text \<open>
  Claim C5, amended. An action whose input is present and readable issues exactly one
  request: a capture whose frame could be read, an upload with a file, a submit of the
  manual form, a generate click in the confirmation view with text that is not blank, and a
  generate click of the page in text mode (text not blank) and in voice mode (a recording
  that the file reader delivers). The exception is the page's generate click in image mode:
  with an image that the file reader delivers it issues the analysis request and, when the
  analysis succeeds with at least one topic, a second request to the text-to-video endpoint.
\<close>

theorem requests_per_action:
  "length (requests (captureImage rg (Inr url) out s)) = length (requests s) + 1
   \<and> length (requests (handleImageUpload (Some f) out s)) = length (requests s) + 1
   \<and> length (m_requests (handleSubmit gout m)) = length (m_requests m) + 1
   \<and> (find_overlay (body s) = Some v \<and> trim (confirmed_input v) \<noteq> [] \<longrightarrow>
        length (requests (proceedWithConfirmedInput gout s)) = length (requests s) + 1)
   \<and> (inputMode p = TextMode \<and> trim (inputText p) \<noteq> [] \<longrightarrow>
        length (p_requests (handleGenerate w p)) = length (p_requests p) + 1)
   \<and> (inputMode p = VoiceMode \<and> recordedAudio p \<noteq> None \<and> file_read w \<noteq> None \<longrightarrow>
        length (p_requests (handleGenerate w p)) = length (p_requests p) + 1)
   \<and> (inputMode p = ImageMode \<and> selectedImage p \<noteq> None \<and> file_read w \<noteq> None \<longrightarrow>
        length (p_requests (handleGenerate w p))
          = length (p_requests p) + (if topic_found (analysis_outcome w) then 2 else 1))"
proof (intro conjI impI)
  show "length (requests (captureImage rg (Inr url) out s)) = length (requests s) + 1"
    by (simp add: requests_captureImage)
  show "length (requests (handleImageUpload (Some f) out s)) = length (requests s) + 1"
    by (simp add: handleImageUpload_def requests_processImage)
  show "length (m_requests (handleSubmit gout m)) = length (m_requests m) + 1"
    by (simp add: m_requests_handleSubmit)
next
  assume "find_overlay (body s) = Some v \<and> trim (confirmed_input v) \<noteq> []"
  then show "length (requests (proceedWithConfirmedInput gout s)) = length (requests s) + 1"
    by (simp add: requests_proceed)
next
  assume "inputMode p = TextMode \<and> trim (inputText p) \<noteq> []"
  then show "length (p_requests (handleGenerate w p)) = length (p_requests p) + 1"
    by (simp add: handleGenerate_def p_requests_generateVideoFromText)
next
  assume "inputMode p = VoiceMode \<and> recordedAudio p \<noteq> None \<and> file_read w \<noteq> None"
  then show "length (p_requests (handleGenerate w p)) = length (p_requests p) + 1"
    by (auto simp: handleGenerate_def p_requests_generateVideoFromVoice)
next
  assume "inputMode p = ImageMode \<and> selectedImage p \<noteq> None \<and> file_read w \<noteq> None"
  then show "length (p_requests (handleGenerate w p))
          = length (p_requests p) + (if topic_found (analysis_outcome w) then 2 else 1)"
    by (auto simp: handleGenerate_def p_requests_analyzeImage)
qed

theorem requests_per_action_witness:
  "length (requests (captureImage None (Inr ''data:image/jpeg;base64,AA'') demo_analysis
                       demo_confirming)) = 2
   \<and> length (requests (handleImageUpload (Some ''page.png'') demo_analysis demo_confirming)) = 2
   \<and> length (m_requests (handleSubmit failed_generation (new_manual demo_form))) = 1
   \<and> length (requests (proceedWithConfirmedInput failed_generation demo_confirming)) = 2
   \<and> length (p_requests (handleGenerate demo_world scenario_page)) = 1
   \<and> length (p_requests (handleGenerate demo_world voice_page)) = 1
   \<and> length (p_requests (handleGenerate demo_world image_page)) = 2"
proof -
  have r: "requests demo_confirming
           = [post_form ''/api/process-camera-capture''
                [(''image_data'', Text ''data:image/jpeg;base64,AA'')]]"
    by (simp add: demo_confirming_def requests_captureImage new_scanner_def)
  have v: "find_overlay (body demo_confirming)
             = Some (new_overlay plain_textarea demo_confirmation)"
    "trim (confirmed_input (new_overlay plain_textarea demo_confirmation)) \<noteq> []"
    by (simp_all add: demo_confirming_state new_overlay_def demo_confirmation_def trim_def
        js_whitespace_def plain_textarea_def)
  show ?thesis
    using requests_per_action [of None "''data:image/jpeg;base64,AA''" demo_analysis
        demo_confirming "''page.png''" failed_generation "new_manual demo_form"
        "new_overlay plain_textarea demo_confirmation" scenario_page demo_world]
      requests_per_action [of None "''data:image/jpeg;base64,AA''" demo_analysis
        demo_confirming "''page.png''" failed_generation "new_manual demo_form"
        "new_overlay plain_textarea demo_confirmation" voice_page demo_world]
      requests_per_action [of None "''data:image/jpeg;base64,AA''" demo_analysis
        demo_confirming "''page.png''" failed_generation "new_manual demo_form"
        "new_overlay plain_textarea demo_confirmation" image_page demo_world]
    by (simp add: r v scenario_page_def voice_page_def image_page_def new_page_def
        demo_world_def new_manual_def trim_scenario)
qed

section \<open>Properties of the manual input handler\<close>

lemma displays_updateLoadingStep [simp]:
  "form_display (updateLoadingStep n c s) = form_display s"
  "loadingSection_display (updateLoadingStep n c s) = loadingSection_display s"
  "resultsSection_display (updateLoadingStep n c s) = resultsSection_display s"
  "detectionSection_display (updateLoadingStep n c s) = detectionSection_display s"
  "m_alerts (updateLoadingStep n c s) = m_alerts s"
  by (simp_all add: updateLoadingStep_def split: option.split)

lemma displays_all_steps [simp]:
  "form_display (all_steps c s) = form_display s"
  "loadingSection_display (all_steps c s) = loadingSection_display s"
  "resultsSection_display (all_steps c s) = resultsSection_display s"
  "detectionSection_display (all_steps c s) = detectionSection_display s"
  "m_alerts (all_steps c s) = m_alerts s"
  by (simp_all add: all_steps_def)

text \<open>
  Whatever the failure (the request rejects, the body is not JSON, or the backend reports
  \<^verbatim>\<open>success: false\<close>), \<^verbatim>\<open>handleSubmit\<close> ends with the form, the loading section and the
  results section all hidden, and one more alert.
\<close>

lemma handleSubmit_failure:
  assumes "\<not> generation_succeeded out"
  shows "form_display (handleSubmit out s) = ''none''"
    and "loadingSection_display (handleSubmit out s) = ''none''"
    and "resultsSection_display (handleSubmit out s) = ''none''"
    and "length (m_alerts (handleSubmit out s)) = length (m_alerts s) + 1"
  using assms
  by (cases out rule: generation_succeeded.cases;
      simp add: handleSubmit_def Let_def showLoading_def hideLoading_def)+

text \<open>
  The scanner's failure paths do return to the camera view: whatever fails in
  \<^verbatim>\<open>processCameraCapture\<close> before the analysis is accepted, the loading indicator is hidden,
  one alert is shown, and the document and the capture button are as before.
\<close>

lemma processCameraCapture_failure:
  assumes "\<not> analysis_succeeded out"
  shows "arLoading_display (processCameraCapture fd out s) = ''none''"
    and "length (alerts (processCameraCapture fd out s)) = length (alerts s) + 1"
    and "body (processCameraCapture fd out s) = body s"
    and "captureBtn_display (processCameraCapture fd out s) = captureBtn_display s"
  using assms
  by (cases out rule: analysis_succeeded.cases;
      simp add: processCameraCapture_def analysis_done_def Let_def fetch_def alert_def
        hideARLoading_def)+

text \<open>
  Claim C3 does not hold of the code. After a failed submit of the manual form
  (here the backend answers \<^verbatim>\<open>success: false\<close>) the error is alerted, but the form stays
  hidden together with the loading and the results sections: \<^verbatim>\<open>showLoading\<close> hid the form
  and the \<^verbatim>\<open>catch\<close> block only hides the loading section. And in the page's voice mode a
  request that rejects inside the file reader's callback is caught by nothing:
  \<open>isGenerating\<close> stays set, no error is shown, and the generate button stays disabled.
\<close>

theorem failure_leaves_page_stuck:
  "form_display (handleSubmit failed_generation (new_manual demo_form)) = ''none''
   \<and> loadingSection_display (handleSubmit failed_generation (new_manual demo_form)) = ''none''
   \<and> resultsSection_display (handleSubmit failed_generation (new_manual demo_form)) = ''none''
   \<and> m_alerts (handleSubmit failed_generation (new_manual demo_form))
       = [''Generation failed: no content detected'']
   \<and> isGenerating (handleGenerate (demo_world\<lparr>generation_outcome := Rejects ''Failed to fetch''\<rparr>)
        voice_page)
   \<and> result (handleGenerate (demo_world\<lparr>generation_outcome := Rejects ''Failed to fetch''\<rparr>)
        voice_page) = None
   \<and> generate_disabled (handleGenerate
        (demo_world\<lparr>generation_outcome := Rejects ''Failed to fetch''\<rparr>) voice_page)"
proof -
  have "\<not> generation_succeeded failed_generation"
    by (simp add: failed_generation_def)
  note f = handleSubmit_failure(1-3)[OF this, of "new_manual demo_form"]
  have a: "m_alerts (handleSubmit failed_generation (new_manual demo_form))
       = [''Generation failed: no content detected'']"
    by (simp add: handleSubmit_def failed_generation_def Let_def showLoading_def hideLoading_def
        new_manual_def or_else_def)
  have v: "handleGenerate (demo_world\<lparr>generation_outcome := Rejects ''Failed to fetch''\<rparr>) voice_page
           = p_fetch (post_json (API_BASE @ ''/api/nlp/voice-to-video'')
                        [(''audio'', Text ''data:;base64,AA''), (''language'', Text ''auto'')])
               (voice_page\<lparr>isGenerating := True, generationProgress := 30, result := None\<rparr>)"
    by (simp add: handleGenerate_def voice_page_def new_page_def demo_world_def
        generateVideoFromVoice_def Let_def p_fetch_def)
  show ?thesis
    by (simp add: f a v p_fetch_def generate_disabled_def)
qed







section \<open>Properties of the audio helper\<close>

lemma fold_ondataavailable:
  "fold ondataavailable chunks s
     = s\<lparr>audioChunks := audioChunks s @ filter (\<lambda>c. blob_bytes c \<noteq> []) chunks\<rparr>"
  by (induction chunks arbitrary: s) (simp_all add: ondataavailable_def)

text \<open>
  Claim C8. With a callback registered, a \<^verbatim>\<open>startRecording\<close> that does not throw, then any
  data events, then \<^verbatim>\<open>stopRecording\<close>: the callback has been called exactly once more, with
  the blob of type \<^verbatim>\<open>audio/webm\<close> built from the chunks of positive size delivered since
  that start (whatever chunks were held before), and a further \<^verbatim>\<open>stopRecording\<close> changes
  nothing.
\<close>

theorem recording_completes_once:
  assumes "onRecordingComplete s" and "startRecording mic s = (s1, None)"
  shows "completed (stopRecording final (fold ondataavailable chunks s1))
           = completed s @
             [new_Blob (filter (\<lambda>c. blob_bytes c \<noteq> []) (chunks @ [final])) ''audio/webm'']
       \<and> stopRecording again (stopRecording final (fold ondataavailable chunks s1))
           = stopRecording final (fold ondataavailable chunks s1)"
proof -
  obtain st where s1: "s1 = (if currentStream s = None then restartAudioMonitoring mic s else s)
                        \<lparr>mediaRecorder := Some st, audioChunks := [], ea_isRecording := True\<rparr>"
    using assms(2)
    by (auto simp: startRecording_def Let_def split: option.splits if_splits)
  have cb: "onRecordingComplete s1" "completed s1 = completed s" "audioChunks s1 = []"
    "mediaRecorder s1 \<noteq> None" "ea_isRecording s1"
    using assms(1) by (simp_all add: s1 restartAudioMonitoring_def split: option.split)
  let ?s2 = "fold ondataavailable chunks s1"
  have s2: "onRecordingComplete ?s2" "completed ?s2 = completed s"
    "audioChunks ?s2 = filter (\<lambda>c. blob_bytes c \<noteq> []) chunks"
    "mediaRecorder ?s2 \<noteq> None" "ea_isRecording ?s2"
    using cb by (simp_all add: fold_ondataavailable)
  have 1: "completed (stopRecording final ?s2)
           = completed s @
             [new_Blob (filter (\<lambda>c. blob_bytes c \<noteq> []) (chunks @ [final])) ''audio/webm'']"
    using s2 by (simp add: stopRecording_def onstop_def ondataavailable_def Let_def)
  have 2: "\<not> ea_isRecording (stopRecording final ?s2)"
    using s2 by (simp add: stopRecording_def)
  have 3: "stopRecording again (stopRecording final ?s2) = stopRecording final ?s2"
    using 2 by (simp add: stopRecording_def[of again])
  show ?thesis using 1 3 by simp
qed

theorem recording_completes_once_witness:
  "onRecordingComplete (setRecordingCompleteCallback new_audio_input)
   \<and> snd (startRecording demo_microphone (setRecordingCompleteCallback new_audio_input)) = None
   \<and> completed (stopRecording (Blob ''cd'' ''audio/webm'')
        (fold ondataavailable [Blob ''ab'' ''audio/webm'', Blob [] ''audio/webm'']
           (fst (startRecording demo_microphone (setRecordingCompleteCallback new_audio_input)))))
       = [Blob ''abcd'' ''audio/webm'']"
  using recording_completes_once [of "setRecordingCompleteCallback new_audio_input" demo_microphone
      "fst (startRecording demo_microphone (setRecordingCompleteCallback new_audio_input))"
      "Blob ''cd'' ''audio/webm''" "[Blob ''ab'' ''audio/webm'', Blob [] ''audio/webm'']"
      "Blob [] []"]
  by (simp add: setRecordingCompleteCallback_def new_audio_input_def demo_microphone_def
      startRecording_def restartAudioMonitoring_def new_Blob_def Let_def)

end
